theory Spec2Isabelle
  imports Main "HOL-Library.Sublist"
begin

section \<open>Strings, optional values and numbers as the TypeScript code uses them\<close>

text \<open>
  A JavaScript string is modelled as a \<^typ>\<open>string\<close>; a value that may be
  \<^verbatim>\<open>undefined\<close> (an unset environment variable, an optional field) is an
  \<^typ>\<open>'a option\<close>. Exit codes, line numbers and pull-request numbers are integers.
\<close>

definition truthy :: "string option \<Rightarrow> bool" where
  \<comment> \<open>JavaScript truthiness of a possibly undefined string: undefined and the empty string are falsy.\<close>
  "truthy v = (case v of None \<Rightarrow> False | Some s \<Rightarrow> s \<noteq> [])"

definition orElse :: "string option \<Rightarrow> string \<Rightarrow> string" where
  \<comment> \<open>\<^verbatim>\<open>a || b\<close> on a possibly undefined string \<^verbatim>\<open>a\<close>.\<close>
  "orElse v d = (case v of None \<Rightarrow> d | Some s \<Rightarrow> (if s = [] then d else s))"

definition tpl :: "string option \<Rightarrow> string" where
  \<comment> \<open>A possibly undefined string inside a template literal.\<close>
  "tpl v = (case v of None \<Rightarrow> ''undefined'' | Some s \<Rightarrow> s)"

fun digitsOf :: "nat \<Rightarrow> string" where
  "digitsOf n =
     (if n < 10 then [char_of (48 + n)]
      else digitsOf (n div 10) @ [char_of (48 + n mod 10)])"

declare digitsOf.simps [simp del]

definition toString :: "int \<Rightarrow> string" where
  \<comment> \<open>Decimal rendering of an integer, as a template literal or \<^verbatim>\<open>toString()\<close> gives it.\<close>
  "toString i = (if i < 0 then CHR ''-'' # digitsOf (nat (- i)) else digitsOf (nat i))"

fun joinWith :: "string \<Rightarrow> string list \<Rightarrow> string" where
  "joinWith sep [] = []"
| "joinWith sep [x] = x"
| "joinWith sep (x # y # ys) = x @ sep @ joinWith sep (y # ys)"

definition nl :: string where
  "nl = [CHR 0x0A]"

definition dq :: string where
  \<comment> \<open>the double quote\<close>
  "dq = [CHR 0x22]"

text \<open>The pictographs of the messages, as the bytes the source files hold.\<close>

definition stopSign :: string where
  \<comment> \<open>scanner.ts\<close>
  "stopSign = [CHR 0xF0, CHR 0x9F, CHR 0x9B, CHR 0x91]"

definition mainCheckMark :: string where
  "mainCheckMark = [CHR 0xE2, CHR 0x80, CHR 0x9A, CHR 0xC3, CHR 0xBA, CHR 0xC3, CHR 0x96]"

definition mainStopSign :: string where
  "mainStopSign = [CHR 0xEF, CHR 0xA3, CHR 0xBF, CHR 0xC3, CHR 0xBC, CHR 0xC3, CHR 0xB5, CHR 0xC3, CHR 0xAB]"

definition mainWarningSign :: string where
  "mainWarningSign =
     [CHR 0xE2, CHR 0x80, CHR 0x9A, CHR 0xC3, CHR 0xB6, CHR 0xE2, CHR 0x80, CHR 0xA0,
      CHR 0xC3, CHR 0x94, CHR 0xE2, CHR 0x88, CHR 0x8F, CHR 0xC3, CHR 0xA8]"

definition mainCrossMark :: string where
  "mainCrossMark = [CHR 0xE2, CHR 0x80, CHR 0x9A, CHR 0xC3, CHR 0xB9, CHR 0xC3, CHR 0xA5]"

section \<open>Data model\<close>

type_synonym env = "string \<rightharpoonup> string"

record PRComment =
  pc_owner :: "string option"
  pc_repo :: "string option"
  pc_pull_number :: int
  pc_body :: string
  pc_commit_id :: string
  pc_path :: string
  pc_side :: string
  pc_line :: int

record ExistingComment =
  ec_body :: string
  ec_path :: string
  ec_original_line :: "int option"

record PhysicalLocation =
  uri :: string
  startLine :: int

record SarifResult =
  ruleId :: string
  commitSha :: string
  author :: string
  date :: string
  email :: string
  locations :: "PhysicalLocation list"

record ScanInfo =
  baseRef :: "string option"
  headRef :: "string option"
  gitleaksPath :: "string option"

record Repository =
  html_url :: string
  owner_login :: string
  full_name :: string
  repo_name :: string

record PullRequest =
  base_sha :: string
  head_sha :: string

record EventData =
  repository :: Repository
  commits :: "string list option"
  number :: int
  pull_request :: "PullRequest option"

record Config =
  enableSummary :: bool
  enableUploadArtifact :: bool
  version :: string
  cfg_baseRef :: "string option"

datatype cell = Plain string | HeaderCell string

datatype summaryItem = Heading string | Table "cell list list"

section \<open>Effects, process exit and exceptions\<close>

datatype effect =
    Info string
  | Warning string
  | Error string
  | Debug string
  | SetOutput string string
  | AddPath string
  | RestoreCache string string
  | SaveCache string string
  | DownloadTool string string
  | ExtractZip string string
  | ExtractTar string string
  | GetLatestRelease string string
  | Exec string "string list"
  | UploadArtifact string "string list" string
  | GetPullCommits "string option" "string option" int
  | GetPullComments "string option" "string option" int
  | CreateReviewComment PRComment
  | WriteSummary "summaryItem list"

datatype abort = ProcessExit int | Thrown string

type_synonym 'a act = "effect list \<times> (abort + 'a)"

definition ret :: "'a \<Rightarrow> 'a act" where
  "ret x = ([], Inr x)"

definition emit :: "effect \<Rightarrow> unit act" where
  "emit e = ([e], Inr ())"

definition processExit :: "int \<Rightarrow> 'a act" where
  "processExit c = ([], Inl (ProcessExit c))"

definition throw :: "string \<Rightarrow> 'a act" where
  "throw m = ([], Inl (Thrown m))"

definition andThen :: "'a act \<Rightarrow> ('a \<Rightarrow> 'b act) \<Rightarrow> 'b act" where
  "andThen m f =
     (case m of
        (t, Inl a) \<Rightarrow> (t, Inl a)
      | (t, Inr x) \<Rightarrow> (case f x of (t', r) \<Rightarrow> (t @ t', r)))"

definition typeErrorUndefined :: "string \<Rightarrow> string" where
  \<comment> \<open>The message of the TypeError raised by reading a property of \<^verbatim>\<open>undefined\<close>.\<close>
  "typeErrorUndefined p =
     ''Cannot read properties of undefined (reading '' @ [CHR 0x27] @ p @ [CHR 0x27] @ '')''"

section \<open>The outside world\<close>

text \<open>
  The structured report on disk after the engine has run. The document is taken at the
  types the source declares for it: an object whose \<^verbatim>\<open>runs\<close> may be absent, each run
  with a \<^verbatim>\<open>results\<close> array that may be absent. \<open>ParseFailure m\<close> is a file whose reading
  or \<^verbatim>\<open>JSON.parse\<close> raises an error with message \<open>m\<close>.
\<close>

record Run =
  results :: "SarifResult list option"

datatype sarifFile = FileMissing | ParseFailure string | Document "Run list option"

text \<open>
  The remote API client. Each field answers one request; \<open>Inl m\<close> (or \<open>Some m\<close> for a
  request without a result) is a request that raises an error with message \<open>m\<close>.
\<close>

record Octokit =
  latestRelease :: "string \<Rightarrow> string \<Rightarrow> string + string"
  pullCommits :: "string option \<Rightarrow> string option \<Rightarrow> int \<Rightarrow> string + string list"
  pullComments :: "string option \<Rightarrow> string option \<Rightarrow> int \<Rightarrow> string + ExistingComment list"
  createReviewComment :: "PRComment \<Rightarrow> string option"

text \<open>
  The process and the toolkit libraries: the environment, the platform, the paths, the
  cache, the download and extraction tools, the engine's exit code for an environment
  and a command line (the subprocess inherits the environment of the process and is
  taken to start), the artifact client, the report file and the
  event payload file (\<open>Inl m\<close>: reading or parsing it raises an error with message \<open>m\<close>).
\<close>

record Host =
  env_of :: env
  platform :: string
  arch :: string
  tmpdir :: string
  cwd :: string
  pathJoin :: "string \<Rightarrow> string \<Rightarrow> string"
  restoreCache :: "string list \<Rightarrow> string \<Rightarrow> string + string option"
  saveCache :: "string list \<Rightarrow> string \<Rightarrow> string option"
  downloadTool :: "string \<Rightarrow> string \<Rightarrow> string + string"
  extractArchiveTool :: "string \<Rightarrow> string \<Rightarrow> string option"
  engine :: "env \<Rightarrow> string list \<Rightarrow> int"
  uploadArtifact :: "string \<Rightarrow> string list \<Rightarrow> string \<Rightarrow> string option"
  sarifOnDisk :: sarifFile
  eventOnDisk :: "string \<Rightarrow> string + EventData"

section \<open>scanner.ts: constants\<close>

definition EXIT_CODES_SUCCESS :: int where
  "EXIT_CODES_SUCCESS = 0"

definition EXIT_CODES_ERROR :: int where
  "EXIT_CODES_ERROR = 1"

definition EXIT_CODES_LEAKS_DETECTED :: int where
  "EXIT_CODES_LEAKS_DETECTED = 2"

definition releaseBaseUrl :: string where
  "releaseBaseUrl = ''https://github.com/zricethezav/gitleaks/releases/download''"

definition gitleaksOwner :: string where
  "gitleaksOwner = ''zricethezav''"

definition gitleaksRepo :: string where
  "gitleaksRepo = ''gitleaks''"

definition sarifOutputFile :: string where
  "sarifOutputFile = ''results.sarif''"

definition artifactName :: string where
  "artifactName = ''gitleaks-results.sarif''"

definition scanCommand :: string where
  "scanCommand = ''detect''"

definition scanExitCode :: int where
  "scanExitCode = 2"

definition scanReportFormat :: string where
  "scanReportFormat = ''sarif''"

definition scanLogLevel :: string where
  "scanLogLevel = ''debug''"

section \<open>scanner.ts: platform helpers and installation\<close>

definition normalizePlatform :: "string \<Rightarrow> string" where
  "normalizePlatform p = (if p = ''win32'' then ''windows'' else p)"

definition buildReleaseUrl :: "string \<Rightarrow> string \<Rightarrow> string \<Rightarrow> string" where
  "buildReleaseUrl ver p a =
     (let normalizedPlatform = normalizePlatform p;
          filename = ''gitleaks_'' @ ver @ ''_'' @ normalizedPlatform @ ''_'' @ a @ ''.tar.gz''
      in releaseBaseUrl @ ''/v'' @ ver @ ''/'' @ filename)"

definition buildCacheKey :: "string \<Rightarrow> string \<Rightarrow> string \<Rightarrow> string" where
  "buildCacheKey ver p a = ''gitleaks-cache-'' @ ver @ ''-'' @ p @ ''-'' @ a"

definition getInstallPath :: "Host \<Rightarrow> string \<Rightarrow> string" where
  "getInstallPath h ver = pathJoin h (tmpdir h) (''gitleaks-'' @ ver)"

definition tryRestoreFromCache :: "Host \<Rightarrow> string \<Rightarrow> string \<Rightarrow> bool act" where
  "tryRestoreFromCache h installPath cacheKey =
     andThen (emit (RestoreCache installPath cacheKey)) (\<lambda>_.
       case restoreCache h [installPath] cacheKey of
         Inr restoredKey \<Rightarrow> ret (restoredKey \<noteq> None)
       | Inl m \<Rightarrow> andThen (emit (Warning (''Cache restore failed: '' @ m))) (\<lambda>_. ret False))"

definition trySaveToCache :: "Host \<Rightarrow> string \<Rightarrow> string \<Rightarrow> unit act" where
  "trySaveToCache h installPath cacheKey =
     andThen (emit (SaveCache installPath cacheKey)) (\<lambda>_.
       case saveCache h [installPath] cacheKey of
         None \<Rightarrow> ret ()
       | Some m \<Rightarrow> emit (Warning (''Cache save failed: '' @ m)))"

definition downloadBinary :: "Host \<Rightarrow> string \<Rightarrow> string \<Rightarrow> string act" where
  "downloadBinary h url destination =
     andThen (emit (DownloadTool url destination)) (\<lambda>_.
       case downloadTool h url destination of
         Inr p \<Rightarrow> ret p
       | Inl m \<Rightarrow>
           andThen (emit (Error (''Failed to download from '' @ url @ '': '' @ m))) (\<lambda>_. throw m))"

definition extractArchive :: "Host \<Rightarrow> string \<Rightarrow> string \<Rightarrow> string \<Rightarrow> unit act" where
  "extractArchive h archivePath destination url =
     (if suffix ''.zip'' url then
        andThen (emit (ExtractZip archivePath destination)) (\<lambda>_.
          case extractArchiveTool h archivePath destination of
            None \<Rightarrow> ret () | Some m \<Rightarrow> throw m)
      else if suffix ''.tar.gz'' url then
        andThen (emit (ExtractTar archivePath destination)) (\<lambda>_.
          case extractArchiveTool h archivePath destination of
            None \<Rightarrow> ret () | Some m \<Rightarrow> throw m)
      else throw (''Unsupported archive format: '' @ url))"

definition downloadAndInstallBinary :: "Host \<Rightarrow> string \<Rightarrow> string \<Rightarrow> string \<Rightarrow> unit act" where
  "downloadAndInstallBinary h ver installPath cacheKey =
     (let releaseUrl = buildReleaseUrl ver (platform h) (arch h);
          downloadPath = pathJoin h (tmpdir h) ''gitleaks.tmp''
      in andThen (emit (Info (''Downloading Gitleaks from '' @ releaseUrl))) (\<lambda>_.
         andThen (downloadBinary h releaseUrl downloadPath) (\<lambda>archive.
         andThen (extractArchive h archive installPath releaseUrl) (\<lambda>_.
         trySaveToCache h installPath cacheKey))))"

definition Install :: "Host \<Rightarrow> string \<Rightarrow> string act" where
  "Install h ver =
     (let installPath = getInstallPath h ver;
          cacheKey = buildCacheKey ver (platform h) (arch h)
      in andThen (emit (Info (''Installing Gitleaks '' @ ver @ '' to '' @ installPath))) (\<lambda>_.
         andThen (tryRestoreFromCache h installPath cacheKey) (\<lambda>cacheHit.
         andThen (if cacheHit then emit (Info ''Gitleaks restored from cache'')
                  else downloadAndInstallBinary h ver installPath cacheKey) (\<lambda>_.
         andThen (emit (AddPath installPath)) (\<lambda>_.
         ret installPath)))))"

definition stripLeadingV :: "string \<Rightarrow> string" where
  \<comment> \<open>\<^verbatim>\<open>replace(/^v/, "")\<close>\<close>
  "stripLeadingV s = (case s of c # cs \<Rightarrow> (if c = CHR ''v'' then cs else s) | [] \<Rightarrow> [])"

definition Latest :: "Octokit \<Rightarrow> string act" where
  "Latest octokit =
     andThen (emit (GetLatestRelease gitleaksOwner gitleaksRepo)) (\<lambda>_.
       case latestRelease octokit gitleaksOwner gitleaksRepo of
         Inl m \<Rightarrow> throw m
       | Inr tag_name \<Rightarrow> ret (stripLeadingV tag_name))"

section \<open>scanner.ts: command building and the scan\<close>

definition buildGitLogOptions :: "ScanInfo \<Rightarrow> string \<Rightarrow> string option" where
  "buildGitLogOptions scanInfo eventType =
     (if eventType = ''push'' \<or> eventType = ''pull_request'' then
        (if baseRef scanInfo = headRef scanInfo then Some ''-1''
         else Some (''--no-merges --first-parent '' @ tpl (baseRef scanInfo) @ ''^..''
                      @ tpl (headRef scanInfo)))
      else None)"

definition buildScanCommand :: "ScanInfo \<Rightarrow> string \<Rightarrow> string list" where
  "buildScanCommand scanInfo eventType =
     (let args =
        [scanCommand,
         ''--redact'',
         ''-v'',
         ''--exit-code='' @ toString scanExitCode,
         ''--report-format='' @ scanReportFormat,
         ''--report-path='' @ sarifOutputFile,
         ''--log-level='' @ scanLogLevel]
      in case buildGitLogOptions scanInfo eventType of
           None \<Rightarrow> args
         | Some logOpts \<Rightarrow> (if logOpts = [] then args else args @ [''--log-opts='' @ logOpts]))"

definition uploadScanArtifact :: "Host \<Rightarrow> unit act" where
  "uploadScanArtifact h =
     andThen (emit (UploadArtifact artifactName [sarifOutputFile] (cwd h))) (\<lambda>_.
       case uploadArtifact h artifactName [sarifOutputFile] (cwd h) of
         None \<Rightarrow> ret ()
       | Some m \<Rightarrow> throw m)"

definition Scan :: "Host \<Rightarrow> bool \<Rightarrow> ScanInfo \<Rightarrow> string \<Rightarrow> int act" where
  "Scan h shouldUploadArtifact scanInfo eventType =
     (let args = buildScanCommand scanInfo eventType in
      andThen (emit (Info (''Executing: gitleaks '' @ joinWith '' '' args))) (\<lambda>_.
      andThen (emit (Exec ''gitleaks'' args)) (\<lambda>_.
      let exitCode = engine h (env_of h) args in
      andThen (emit (SetOutput ''exit-code'' (toString exitCode))) (\<lambda>_.
      andThen (if shouldUploadArtifact then uploadScanArtifact h else ret ()) (\<lambda>_.
      ret exitCode)))))"

section \<open>scanner.ts: pull request helpers\<close>

definition fetchPullRequestCommits ::
  "Octokit \<Rightarrow> string option \<Rightarrow> string option \<Rightarrow> int \<Rightarrow> string list act" where
  \<comment> \<open>The commits of the response, each by its \<^verbatim>\<open>sha\<close>.\<close>
  "fetchPullRequestCommits octokit owner repo pullNumber =
     andThen (emit (GetPullCommits owner repo pullNumber)) (\<lambda>_.
       case pullCommits octokit owner repo pullNumber of
         Inl m \<Rightarrow> throw m
       | Inr data \<Rightarrow> ret data)"

fun splitOn :: "char \<Rightarrow> string \<Rightarrow> string list" where
  \<comment> \<open>\<^verbatim>\<open>split\<close> at a one-character separator: always at least one piece.\<close>
  "splitOn c [] = [[]]"
| "splitOn c (x # xs) =
     (if x = c then [] # splitOn c xs
      else (case splitOn c xs of p # ps \<Rightarrow> (x # p) # ps | [] \<Rightarrow> [[x]]))"

definition extractRepoInfo :: "string \<Rightarrow> string option \<times> string option" where
  \<comment> \<open>The pair (owner, repo): the first two pieces, undefined where there is none.\<close>
  "extractRepoInfo fullRepoName =
     (case splitOn CHR ''/'' fullRepoName of
        [] \<Rightarrow> (None, None)
      | [a] \<Rightarrow> (Some a, None)
      | a # b # _ \<Rightarrow> (Some a, Some b))"

definition buildScanInfoFromCommits :: "string list \<Rightarrow> string option \<Rightarrow> ScanInfo act" where
  "buildScanInfoFromCommits commitList baseRefOverride =
     andThen (if truthy baseRefOverride then ret baseRefOverride
              else (case commitList of
                      [] \<Rightarrow> throw (typeErrorUndefined ''sha'')
                    | c # _ \<Rightarrow> ret (Some c))) (\<lambda>b.
     andThen (if commitList = [] then throw (typeErrorUndefined ''sha'')
              else ret (Some (last commitList))) (\<lambda>lastSha.
     andThen (if truthy baseRefOverride
              then emit (Info (''Using base ref override: '' @ tpl baseRefOverride))
              else ret ()) (\<lambda>_.
     ret \<lparr> baseRef = b, headRef = lastSha, gitleaksPath = None \<rparr>)))"

section \<open>scanner.ts: comment management\<close>

definition fetchExistingComments ::
  "Octokit \<Rightarrow> string option \<Rightarrow> string option \<Rightarrow> int \<Rightarrow> ExistingComment list act" where
  "fetchExistingComments octokit owner repo pullNumber =
     andThen (emit (GetPullComments owner repo pullNumber)) (\<lambda>_.
       case pullComments octokit owner repo pullNumber of
         Inl m \<Rightarrow> throw m
       | Inr data \<Rightarrow> ret data)"

definition isCommentDuplicate :: "ExistingComment \<Rightarrow> PRComment \<Rightarrow> bool" where
  "isCommentDuplicate existingComment proposedComment =
     (ec_body existingComment = pc_body proposedComment \<and>
      ec_path existingComment = pc_path proposedComment \<and>
      ec_original_line existingComment = Some (pc_line proposedComment))"

definition commentAlreadyExists :: "ExistingComment list \<Rightarrow> PRComment \<Rightarrow> bool" where
  "commentAlreadyExists existingComments proposedComment =
     list_ex (\<lambda>c. isCommentDuplicate c proposedComment) existingComments"

section \<open>scanner.ts: secret detection helpers\<close>

definition firstLocation :: "SarifResult \<Rightarrow> string + PhysicalLocation" where
  \<comment> \<open>\<^verbatim>\<open>result.locations[0].physicalLocation\<close>: a TypeError (\<open>Inl\<close>) on an empty array.\<close>
  "firstLocation result =
     (case locations result of
        [] \<Rightarrow> Inl (typeErrorUndefined ''physicalLocation'')
      | l # _ \<Rightarrow> Inr l)"

definition buildSecretFingerprint :: "SarifResult \<Rightarrow> string + string" where
  "buildSecretFingerprint result =
     (case firstLocation result of
        Inl m \<Rightarrow> Inl m
      | Inr location \<Rightarrow>
          Inr (commitSha result @ '':'' @ uri location @ '':'' @ ruleId result @ '':''
                 @ toString (startLine location)))"

definition buildCommentBody :: "SarifResult \<Rightarrow> string \<Rightarrow> string option \<Rightarrow> string" where
  "buildCommentBody result fingerprint userList =
     (let body =
        stopSign @ '' **Gitleaks** has detected a secret with rule-id `'' @ ruleId result
          @ ''` in commit '' @ commitSha result @ ''.'' @ nl
          @ ''If this secret is a _true_ positive, please rotate the secret ASAP.'' @ nl
          @ nl
          @ ''If this secret is a _false_ positive, you can add the fingerprint below to your `.gitleaksignore` file and commit the change to this branch.'' @ nl
          @ nl
          @ ''```'' @ nl
          @ ''echo '' @ fingerprint @ '' >> .gitleaksignore'' @ nl
          @ ''```'' @ nl
      in if truthy userList then body @ nl @ nl @ ''cc '' @ tpl userList else body)"

definition buildReviewComment ::
  "env \<Rightarrow> SarifResult \<Rightarrow> string option \<Rightarrow> string option \<Rightarrow> int \<Rightarrow> string + PRComment" where
  "buildReviewComment e result owner repo pullNumber =
     (case firstLocation result of
        Inl m \<Rightarrow> Inl m
      | Inr location \<Rightarrow>
          (case buildSecretFingerprint result of
             Inl m \<Rightarrow> Inl m
           | Inr fingerprint \<Rightarrow>
               Inr \<lparr> pc_owner = owner,
                     pc_repo = repo,
                     pc_pull_number = pullNumber,
                     pc_body = buildCommentBody result fingerprint (e ''GITLEAKS_NOTIFY_USER_LIST''),
                     pc_commit_id = commitSha result,
                     pc_path = uri location,
                     pc_side = ''RIGHT'',
                     pc_line = startLine location \<rparr>))"

definition postReviewComment :: "Octokit \<Rightarrow> PRComment \<Rightarrow> unit act" where
  "postReviewComment octokit comment =
     andThen (emit (CreateReviewComment comment)) (\<lambda>_.
       case createReviewComment octokit comment of
         None \<Rightarrow> ret ()
       | Some m \<Rightarrow>
           emit (Warning (''Failed to post comment on PR #'' @ toString (pc_pull_number comment)
                   @ '': '' @ m @ nl
                   @ ''Likely caused by a large diff. All secrets will be reported in the summary and artifacts.'')))"

section \<open>scanner.ts: report parsing and the pull request scan\<close>

definition liftE :: "string + 'a \<Rightarrow> 'a act" where
  \<comment> \<open>A computation that raises (\<open>Inl\<close>) or returns, as an action without effects.\<close>
  "liftE r = (case r of Inl m \<Rightarrow> throw m | Inr x \<Rightarrow> ret x)"

definition parseSarifFile :: "Host \<Rightarrow> SarifResult list option act" where
  \<comment> \<open>\<open>None\<close> stands for both \<^verbatim>\<open>null\<close> and \<^verbatim>\<open>undefined\<close>: the callers only test the result's truthiness.\<close>
  "parseSarifFile h =
     (case sarifOnDisk h of
        FileMissing \<Rightarrow> ret None
      | ParseFailure m \<Rightarrow>
          andThen (emit (Warning (''Failed to parse SARIF file: '' @ m))) (\<lambda>_. ret None)
      | Document None \<Rightarrow>
          andThen (emit (Warning (''Failed to parse SARIF file: '' @ typeErrorUndefined ''0'')))
            (\<lambda>_. ret None)
      | Document (Some []) \<Rightarrow>
          andThen (emit (Warning (''Failed to parse SARIF file: '' @ typeErrorUndefined ''results'')))
            (\<lambda>_. ret None)
      | Document (Some (r # _)) \<Rightarrow> ret (results r))"

definition validateGitHubToken :: "env \<Rightarrow> unit act" where
  "validateGitHubToken e =
     (if \<not> truthy (e ''GITHUB_TOKEN'') then
        andThen (emit (Error (stopSign @ '' GITHUB_TOKEN is required for pull request scanning. ''
                   @ ''Use the automatically created token as shown in the README.''))) (\<lambda>_.
        processExit 1)
      else ret ())"

definition shouldPostComments :: "env \<Rightarrow> bool" where
  "shouldPostComments e = (e ''GITLEAKS_ENABLE_COMMENTS'' \<noteq> Some ''false'')"


fun postEach ::
  "env \<Rightarrow> Octokit \<Rightarrow> ExistingComment list \<Rightarrow> string option \<Rightarrow> string option \<Rightarrow> int
     \<Rightarrow> SarifResult list \<Rightarrow> unit act" where
  \<comment> \<open>The loop of \<^verbatim>\<open>postPullRequestComments\<close> over the findings.\<close>
  "postEach e octokit existingComments owner repo pullNumber [] = ret ()"
| "postEach e octokit existingComments owner repo pullNumber (secret # rest) =
     andThen (liftE (buildReviewComment e secret owner repo pullNumber)) (\<lambda>comment.
     andThen (if \<not> commentAlreadyExists existingComments comment
              then postReviewComment octokit comment else ret ()) (\<lambda>_.
     postEach e octokit existingComments owner repo pullNumber rest))"

definition postPullRequestComments ::
  "Host \<Rightarrow> Octokit \<Rightarrow> string option \<Rightarrow> string option \<Rightarrow> int \<Rightarrow> int \<Rightarrow> unit act" where
  "postPullRequestComments h octokit owner repo pullNumber exitCode =
     (if exitCode \<noteq> EXIT_CODES_LEAKS_DETECTED then ret ()
      else
        andThen (parseSarifFile h) (\<lambda>secrets.
          case secrets of
            None \<Rightarrow> ret ()
          | Some found \<Rightarrow>
              (if length found = 0 then ret ()
               else
                 andThen (fetchExistingComments octokit owner repo pullNumber) (\<lambda>existingComments.
                 postEach (env_of h) octokit existingComments owner repo pullNumber found))))"

fun requested :: "effect list \<Rightarrow> PRComment list" where
  \<comment> \<open>The comments whose creation a trace asks the API for, in order.\<close>
  "requested [] = []"
| "requested (CreateReviewComment c # t) = c # requested t"
| "requested (_ # t) = requested t"

definition pullRequestScanInfo ::
  "Host \<Rightarrow> Octokit \<Rightarrow> string option \<Rightarrow> string option \<Rightarrow> int \<Rightarrow> EventData \<Rightarrow> ScanInfo act" where
  \<comment> \<open>The choice of \<^verbatim>\<open>scanInfo\<close> inside \<^verbatim>\<open>ScanPullRequest\<close>.\<close>
  "pullRequestScanInfo h octokit owner repo pullNumber eventJSON =
     (if truthy (env_of h ''BASE_REF'') then
        andThen (fetchPullRequestCommits octokit owner repo pullNumber) (\<lambda>commitList.
        buildScanInfoFromCommits commitList (env_of h ''BASE_REF''))
      else
        (case pull_request eventJSON of
           Some pr \<Rightarrow>
             (let baseSha = base_sha pr; headSha = head_sha pr in
              andThen (emit (Info (''Scanning PR from '' @ take 7 baseSha @ '' to '' @ take 7 headSha)))
                (\<lambda>_. ret \<lparr> baseRef = Some baseSha, headRef = Some headSha, gitleaksPath = None \<rparr>))
         | None \<Rightarrow>
             andThen (fetchPullRequestCommits octokit owner repo pullNumber) (\<lambda>commitList.
             buildScanInfoFromCommits commitList None)))"

definition ScanPullRequest :: "Host \<Rightarrow> bool \<Rightarrow> Octokit \<Rightarrow> EventData \<Rightarrow> string \<Rightarrow> int act" where
  "ScanPullRequest h shouldUploadArtifact octokit eventJSON eventType =
     andThen (validateGitHubToken (env_of h)) (\<lambda>_.
     (case extractRepoInfo (full_name (repository eventJSON)) of (owner, repo) \<Rightarrow>
      let pullNumber = number eventJSON in
      andThen (pullRequestScanInfo h octokit owner repo pullNumber eventJSON) (\<lambda>scanInfo.
      andThen (Scan h shouldUploadArtifact scanInfo eventType) (\<lambda>exitCode.
      andThen (if shouldPostComments (env_of h)
               then postPullRequestComments h octokit owner repo pullNumber exitCode
               else ret ()) (\<lambda>_.
      ret exitCode)))))"

definition EXIT_CODE_LEAKS_DETECTED :: int where
  "EXIT_CODE_LEAKS_DETECTED = EXIT_CODES_LEAKS_DETECTED"

section \<open>main.ts: the report module\<close>

definition main_EXIT_CODES_SUCCESS :: int where
  "main_EXIT_CODES_SUCCESS = 0"

definition main_EXIT_CODES_ERROR :: int where
  "main_EXIT_CODES_ERROR = 1"

definition main_EXIT_CODES_LEAKS_FOUND :: int where
  "main_EXIT_CODES_LEAKS_FOUND = 2"

definition SARIF_FILE_PATH :: string where
  "SARIF_FILE_PATH = ''results.sarif''"

definition TABLE_HEADERS :: "cell list" where
  "TABLE_HEADERS =
     [HeaderCell ''Rule ID'', HeaderCell ''Commit'', HeaderCell ''Secret URL'',
      HeaderCell ''Start Line'', HeaderCell ''Author'', HeaderCell ''Date'',
      HeaderCell ''Email'', HeaderCell ''File'']"

definition buildCommitUrl :: "string \<Rightarrow> string \<Rightarrow> string" where
  "buildCommitUrl repoUrl sha = repoUrl @ ''/commit/'' @ sha"

definition buildSecretUrl :: "string \<Rightarrow> string \<Rightarrow> string \<Rightarrow> int \<Rightarrow> string" where
  "buildSecretUrl repoUrl sha filePath lineNumber =
     repoUrl @ ''/blob/'' @ sha @ ''/'' @ filePath @ ''#L'' @ toString lineNumber"

definition buildFileUrl :: "string \<Rightarrow> string \<Rightarrow> string \<Rightarrow> string" where
  "buildFileUrl repoUrl sha filePath = repoUrl @ ''/blob/'' @ sha @ ''/'' @ filePath"

definition formatSecretRow :: "SarifResult \<Rightarrow> string \<Rightarrow> string + cell list" where
  "formatSecretRow secret repoUrl =
     (case firstLocation secret of
        Inl m \<Rightarrow> Inl m
      | Inr location \<Rightarrow>
          (let sha = commitSha secret;
               filePath = uri location;
               lineNumber = startLine location;
               commitUrl = buildCommitUrl repoUrl sha;
               secretUrl = buildSecretUrl repoUrl sha filePath lineNumber;
               fileUrl = buildFileUrl repoUrl sha filePath
           in Inr [Plain (ruleId secret),
                   Plain (''<a href='' @ dq @ commitUrl @ dq @ ''>'' @ take 7 sha @ ''</a>''),
                   Plain (''<a href='' @ dq @ secretUrl @ dq @ ''>View Secret</a>''),
                   Plain (toString lineNumber),
                   Plain (author secret),
                   Plain (date secret),
                   Plain (email secret),
                   Plain (''<a href='' @ dq @ fileUrl @ dq @ ''>'' @ filePath @ ''</a>'')]))"

definition parseSarifResults :: "Host \<Rightarrow> string \<Rightarrow> SarifResult list option act" where
  "parseSarifResults h sarifPath =
     (case sarifOnDisk h of
        FileMissing \<Rightarrow>
          andThen (emit (Warning (''SARIF file not found at '' @ sarifPath))) (\<lambda>_. ret None)
      | ParseFailure m \<Rightarrow>
          andThen (emit (Warning (''Error parsing SARIF file: '' @ m))) (\<lambda>_. ret None)
      | Document rs \<Rightarrow>
          (case rs of
             Some (r # _) \<Rightarrow>
               (case results r of
                  Some found \<Rightarrow> ret (Some found)
                | None \<Rightarrow> andThen (emit (Warning ''Invalid SARIF structure'')) (\<lambda>_. ret None))
           | _ \<Rightarrow> andThen (emit (Warning ''Invalid SARIF structure'')) (\<lambda>_. ret None)))"

fun formatRows :: "SarifResult list \<Rightarrow> string \<Rightarrow> string + cell list list" where
  \<comment> \<open>\<^verbatim>\<open>secrets.map(...)\<close>: the first row that raises ends the mapping.\<close>
  "formatRows [] repoUrl = Inr []"
| "formatRows (secret # rest) repoUrl =
     (case formatSecretRow secret repoUrl of
        Inl m \<Rightarrow> Inl m
      | Inr row \<Rightarrow>
          (case formatRows rest repoUrl of Inl m \<Rightarrow> Inl m | Inr rows \<Rightarrow> Inr (row # rows)))"

definition buildSecretsTable :: "SarifResult list \<Rightarrow> string \<Rightarrow> string + cell list list" where
  "buildSecretsTable secrets repoUrl =
     (case formatRows secrets repoUrl of
        Inl m \<Rightarrow> Inl m
      | Inr rows \<Rightarrow> Inr (TABLE_HEADERS # rows))"

definition writeLeaksDetectedSummary :: "Host \<Rightarrow> string \<Rightarrow> unit act" where
  "writeLeaksDetectedSummary h repoUrl =
     andThen (parseSarifResults h SARIF_FILE_PATH) (\<lambda>secrets.
       case secrets of
         None \<Rightarrow>
           emit (WriteSummary
             [Heading (mainWarningSign @ '' Gitleaks reported leaks but no details found'')])
       | Some found \<Rightarrow>
           (if length found = 0 then
              emit (WriteSummary
                [Heading (mainWarningSign @ '' Gitleaks reported leaks but no details found'')])
            else
              andThen (liftE (buildSecretsTable found repoUrl)) (\<lambda>tableData.
              emit (WriteSummary
                [Heading (mainStopSign @ '' Gitleaks detected secrets '' @ mainStopSign),
                 Table tableData]))))"

definition writeSuccessSummary :: "unit act" where
  "writeSuccessSummary = emit (WriteSummary [Heading (''No leaks detected '' @ mainCheckMark)])"

definition writeErrorSummary :: "int \<Rightarrow> unit act" where
  "writeErrorSummary exitCode =
     (let message =
        (if exitCode = main_EXIT_CODES_ERROR
         then mainCrossMark @ '' Gitleaks exited with error. Exit code ['' @ toString exitCode @ '']''
         else mainCrossMark @ '' Gitleaks exited with unexpected exit code [''
                @ toString exitCode @ '']'')
      in emit (WriteSummary [Heading message]))"

definition writeSummary :: "Host \<Rightarrow> int \<Rightarrow> EventData \<Rightarrow> unit act" where
  "writeSummary h exitCode eventJSON =
     (let repoUrl = html_url (repository eventJSON) in
      if exitCode = main_EXIT_CODES_SUCCESS then writeSuccessSummary
      else if exitCode = main_EXIT_CODES_LEAKS_FOUND then writeLeaksDetectedSummary h repoUrl
      else writeErrorSummary exitCode)"


section \<open>main.ts: configuration\<close>

definition DEFAULT_GITLEAKS_VERSION :: string where
  "DEFAULT_GITLEAKS_VERSION = ''8.24.3''"

definition parseBooleanEnv :: "env \<Rightarrow> string \<Rightarrow> bool \<Rightarrow> bool" where
  "parseBooleanEnv e key defaultValue =
     (let v = e key in
      if v = Some ''false'' \<or> v = Some ''0'' then False else defaultValue)"

definition parseEnvironmentConfig :: "env \<Rightarrow> Config" where
  "parseEnvironmentConfig e =
     \<lparr> enableSummary = parseBooleanEnv e ''GITLEAKS_ENABLE_SUMMARY'' True,
       enableUploadArtifact = parseBooleanEnv e ''GITLEAKS_ENABLE_UPLOAD_ARTIFACT'' True,
       version = orElse (e ''GITLEAKS_VERSION'') DEFAULT_GITLEAKS_VERSION,
       cfg_baseRef = e ''BASE_REF'' \<rparr>"

section \<open>main.ts: events and scan orchestration\<close>

definition EVENT_PUSH :: string where
  "EVENT_PUSH = ''push''"

definition EVENT_PULL_REQUEST :: string where
  "EVENT_PULL_REQUEST = ''pull_request''"

definition EVENT_WORKFLOW_DISPATCH :: string where
  "EVENT_WORKFLOW_DISPATCH = ''workflow_dispatch''"

definition EVENT_SCHEDULE :: string where
  "EVENT_SCHEDULE = ''schedule''"

definition EXIT_STATUS_SUCCESS :: int where
  "EXIT_STATUS_SUCCESS = 0"

definition EXIT_STATUS_LEAKS_DETECTED :: int where
  "EXIT_STATUS_LEAKS_DETECTED = 1"

definition SUPPORTED_EVENTS :: "string list" where
  "SUPPORTED_EVENTS = [EVENT_PUSH, EVENT_PULL_REQUEST, EVENT_WORKFLOW_DISPATCH, EVENT_SCHEDULE]"

record ScanConfig = Config +
  apiClient :: Octokit
  eventData :: EventData
  installedPath :: string

definition getEventInfo :: "env \<Rightarrow> string \<times> string" where
  \<comment> \<open>The pair (type, path).\<close>
  "getEventInfo e = (orElse (e ''GITHUB_EVENT_NAME'') [], orElse (e ''GITHUB_EVENT_PATH'') [])"

definition loadEventData :: "Host \<Rightarrow> string \<Rightarrow> EventData act" where
  "loadEventData h eventPath =
     (case eventOnDisk h eventPath of
        Inr d \<Rightarrow> ret d
      | Inl m \<Rightarrow>
          andThen (emit (Error (''Failed to load event data from '' @ eventPath @ '': '' @ m)))
            (\<lambda>_. processExit 1))"

definition validateEventType :: "string \<Rightarrow> unit act" where
  "validateEventType eventType =
     (if \<not> List.member SUPPORTED_EVENTS eventType then
        andThen (emit (Error (''ERROR: The ['' @ eventType @ ''] event is not yet supported'')))
          (\<lambda>_. processExit 1)
      else ret ())"

fun removeFirst :: "string \<Rightarrow> string \<Rightarrow> string" where
  \<comment> \<open>\<^verbatim>\<open>s.replace(pat, "")\<close> for a string pattern: the first occurrence is removed.\<close>
  "removeFirst pat [] = []"
| "removeFirst pat (c # cs) =
     (if prefix pat (c # cs) then drop (length pat) (c # cs) else c # removeFirst pat cs)"

definition normalizeScheduleEvent :: "env \<Rightarrow> EventData \<Rightarrow> string \<Rightarrow> EventData" where
  "normalizeScheduleEvent e ev eventType =
     (if eventType \<noteq> EVENT_SCHEDULE then ev
      else
        (let owner = orElse (e ''GITHUB_REPOSITORY_OWNER'') [];
             fullRepo = orElse (e ''GITHUB_REPOSITORY'') [];
             repoName = removeFirst (owner @ ''/'') fullRepo
         in ev\<lparr> repository :=
                  \<lparr> html_url = ''https://github.com/'' @ fullRepo,
                    owner_login = owner,
                    full_name = fullRepo,
                    repo_name = repoName \<rparr> \<rparr>))"

definition resolveGitleaksVersion :: "string \<Rightarrow> Octokit \<Rightarrow> string act" where
  "resolveGitleaksVersion ver client =
     (if ver = ''latest'' then
        andThen (emit (Info ''Resolving latest Gitleaks version...'')) (\<lambda>_. Latest client)
      else ret ver)"

definition buildPushScanInfo :: "EventData \<Rightarrow> string option \<Rightarrow> ScanInfo act" where
  "buildPushScanInfo ev baseRefOverride =
     (case commits ev of
        None \<Rightarrow>
          andThen (emit (Info ''No commits to scan'')) (\<lambda>_. processExit EXIT_STATUS_SUCCESS)
      | Some [] \<Rightarrow>
          andThen (emit (Info ''No commits to scan'')) (\<lambda>_. processExit EXIT_STATUS_SUCCESS)
      | Some (c # cs) \<Rightarrow>
          (let b = orElse baseRefOverride c;
               lastId = last (c # cs)
           in andThen (if truthy baseRefOverride
                       then emit (Info (''Overriding baseRef for scan with '' @ tpl baseRefOverride @ ''.''))
                       else ret ()) (\<lambda>_.
              ret \<lparr> baseRef = Some b, headRef = Some lastId, gitleaksPath = None \<rparr>)))"

definition executeScan :: "Host \<Rightarrow> string \<Rightarrow> ScanInfo \<Rightarrow> ScanConfig \<Rightarrow> int act" where
  "executeScan h scanType scanParams config =
     (if scanType = EVENT_PUSH \<or> scanType = EVENT_WORKFLOW_DISPATCH \<or> scanType = EVENT_SCHEDULE then
        Scan h (enableUploadArtifact config) scanParams scanType
      else if scanType = EVENT_PULL_REQUEST then
        ScanPullRequest h (enableUploadArtifact config) (apiClient config) (eventData config) scanType
      else
        andThen (emit (Error (''No scanner configured for event type: '' @ scanType)))
          (\<lambda>_. processExit 1))"

definition performScan :: "Host \<Rightarrow> string \<Rightarrow> EventData \<Rightarrow> ScanConfig \<Rightarrow> int act" where
  "performScan h eventType ev config =
     andThen (emit (Info (''Event type: '' @ eventType))) (\<lambda>_.
     let scanParams = \<lparr> baseRef = None, headRef = None, gitleaksPath = Some (installedPath config) \<rparr> in
     if eventType = EVENT_PUSH then
       andThen (buildPushScanInfo ev (cfg_baseRef config)) (\<lambda>scanInfo.
       executeScan h eventType scanInfo (config\<lparr> eventData := ev \<rparr>))
     else if eventType = EVENT_PULL_REQUEST then
       executeScan h eventType scanParams (config\<lparr> eventData := ev \<rparr>)
     else if eventType = EVENT_WORKFLOW_DISPATCH \<or> eventType = EVENT_SCHEDULE then
       executeScan h eventType scanParams (config\<lparr> eventData := ev \<rparr>)
     else
       andThen (emit (Error (''Unhandled event type: '' @ eventType))) (\<lambda>_. processExit 1))"

definition generateSummary :: "Host \<Rightarrow> int \<Rightarrow> EventData \<Rightarrow> bool \<Rightarrow> unit act" where
  "generateSummary h exitCode ev shouldGenerate =
     (if \<not> shouldGenerate then emit (Debug ''Summary generation disabled'')
      else writeSummary h exitCode ev)"

section \<open>main.ts: exit handling\<close>

definition handleScanResult :: "int \<Rightarrow> unit act" where
  "handleScanResult exitCode =
     (if exitCode = EXIT_STATUS_SUCCESS then
        emit (Info (mainCheckMark @ '' No leaks detected''))
      else if exitCode = EXIT_CODE_LEAKS_DETECTED then
        andThen (emit (Warning (mainStopSign @ '' Leaks detected, see job summary for details'')))
          (\<lambda>_. processExit EXIT_STATUS_LEAKS_DETECTED)
      else
        andThen (emit (Error (''ERROR: Unexpected exit code ['' @ toString exitCode @ '']'')))
          (\<lambda>_. processExit exitCode))"

section \<open>main.ts: the run\<close>

definition run :: "Host \<Rightarrow> Octokit \<Rightarrow> unit act" where
  \<comment> \<open>The main flow from the reading of the configuration on (the subscription check that
      precedes it has returned); the API client is the one \<^verbatim>\<open>createApiClient\<close> builds.\<close>
  "run h client =
     (let config = parseEnvironmentConfig (env_of h) in
      case getEventInfo (env_of h) of (eventType, eventPath) \<Rightarrow>
      andThen (emit (Debug (if enableSummary config then ''GitHub Actions Summary enabled''
                            else ''Disabling GitHub Actions Summary.''))) (\<lambda>_.
      andThen (emit (Debug (if enableUploadArtifact config then ''Artifact upload enabled''
                            else ''Disabling uploading of results.sarif artifact.''))) (\<lambda>_.
      andThen (validateEventType eventType) (\<lambda>_.
      andThen (loadEventData h eventPath) (\<lambda>loaded.
      let ev = normalizeScheduleEvent (env_of h) loaded eventType in
      andThen (resolveGitleaksVersion (version config) client) (\<lambda>ver.
      andThen (emit (Info (''Gitleaks version: '' @ ver))) (\<lambda>_.
      andThen (Install h ver) (\<lambda>installed.
      let scanConfig =
            \<lparr> enableSummary = enableSummary config,
              enableUploadArtifact = enableUploadArtifact config,
              version = version config,
              cfg_baseRef = cfg_baseRef config,
              apiClient = client,
              eventData = ev,
              installedPath = installed \<rparr> in
      andThen (performScan h eventType ev scanConfig) (\<lambda>exitCode.
      andThen (generateSummary h exitCode ev (enableSummary config)) (\<lambda>_.
      handleScanResult exitCode))))))))))"

definition processStatus :: "'a act \<Rightarrow> int" where
  \<comment> \<open>The status the process ends with: 0 when the run returns, the argument of
      \<^verbatim>\<open>process.exit\<close>, and 1 from the entry point's handler of an uncaught error.\<close>
  "processStatus r =
     (case snd r of
        Inr _ \<Rightarrow> 0
      | Inl (ProcessExit c) \<Rightarrow> c
      | Inl (Thrown _) \<Rightarrow> 1)"

section \<open>Properties of traces and outcomes\<close>

fun isExec :: "effect \<Rightarrow> bool" where
  \<comment> \<open>The effect is the start of a subprocess.\<close>
  "isExec (Exec _ _) = True"
| "isExec _ = False"

definition quiet :: "'a act \<Rightarrow> bool" where
  \<comment> \<open>An action that starts no subprocess and does not exit the process.\<close>
  "quiet m =
     (\<not> list_ex isExec (fst m)
      \<and> (case snd m of Inl (ProcessExit _) \<Rightarrow> False | _ \<Rightarrow> True))"

definition endsCleanUnscanned :: "'a act \<Rightarrow> bool" where
  \<comment> \<open>An action that starts no subprocess and either exits the process with status 0 or
      raises an error.\<close>
  "endsCleanUnscanned m =
     (\<not> list_ex isExec (fst m)
      \<and> (case snd m of Inl (ProcessExit c) \<Rightarrow> c = 0 | Inl (Thrown _) \<Rightarrow> True | Inr _ \<Rightarrow> False))"

fun isWriteSummary :: "effect \<Rightarrow> bool" where
  \<comment> \<open>The effect is the writing of a job summary.\<close>
  "isWriteSummary (WriteSummary _) = True"
| "isWriteSummary _ = False"

section \<open>Sample inputs\<close>

text \<open>Concrete inputs on which the theorems below are instantiated.\<close>

definition sampleHost :: "env \<Rightarrow> sarifFile \<Rightarrow> Host" where
  "sampleHost e f =
     \<lparr> env_of = e, platform = ''linux'', arch = ''x64'', tmpdir = ''/tmp'', cwd = ''/work'',
       pathJoin = (\<lambda>a b. a @ ''/'' @ b),
       restoreCache = (\<lambda>_ _. Inr None),
       saveCache = (\<lambda>_ _. None),
       downloadTool = (\<lambda>_ d. Inr d),
       extractArchiveTool = (\<lambda>_ _. None),
       engine = (\<lambda>_ _. 2),
       uploadArtifact = (\<lambda>_ _ _. None),
       sarifOnDisk = f,
       eventOnDisk = (\<lambda>_. Inl ''no such file'') \<rparr>"

definition sampleOctokit :: "string list \<Rightarrow> ExistingComment list \<Rightarrow> Octokit" where
  "sampleOctokit shas existing =
     \<lparr> latestRelease = (\<lambda>_ _. Inr ''v8.30.0''),
       pullCommits = (\<lambda>_ _ _. Inr shas),
       pullComments = (\<lambda>_ _ _. Inr existing),
       createReviewComment = (\<lambda>_. None) \<rparr>"

definition sampleEvent :: "string list option \<Rightarrow> PullRequest option \<Rightarrow> EventData" where
  "sampleEvent pushed pr =
     \<lparr> repository = \<lparr> html_url = ''https://github.com/acme/shop'', owner_login = ''acme'',
                       full_name = ''acme/shop'', repo_name = ''shop'' \<rparr>,
       commits = pushed, number = 7, pull_request = pr \<rparr>"

definition sampleConfig :: "Octokit \<Rightarrow> EventData \<Rightarrow> ScanConfig" where
  "sampleConfig client ev =
     \<lparr> enableSummary = True, enableUploadArtifact = True, version = ''8.24.3'',
       cfg_baseRef = None, apiClient = client, eventData = ev,
       installedPath = ''/tmp/gitleaks-8.24.3'' \<rparr>"

definition sampleFinding :: SarifResult where
  "sampleFinding =
     \<lparr> ruleId = ''aws-key'', commitSha = ''bbb2222'', author = ''dev'', date = ''2024-01-01'',
       email = ''dev@example.com'', locations = [\<lparr> uri = ''config.yml'', startLine = 12 \<rparr>] \<rparr>"

definition sampleRunHost :: "string \<Rightarrow> sarifFile \<Rightarrow> EventData \<Rightarrow> Host" where
  \<comment> \<open>A host on which a run reaches the scan: the event loads and the cache holds the engine.\<close>
  "sampleRunHost eventName f ev =
     (sampleHost [''GITHUB_EVENT_NAME'' \<mapsto> eventName, ''GITHUB_EVENT_PATH'' \<mapsto> ''/event.json'',
                  ''GITHUB_TOKEN'' \<mapsto> ''token''] f)
       \<lparr> restoreCache := (\<lambda>_ k. Inr (Some k)), eventOnDisk := (\<lambda>_. Inr ev) \<rparr>"

definition findingWithoutLocation :: SarifResult where
  \<comment> \<open>A result whose \<^verbatim>\<open>locations\<close> array is empty.\<close>
  "findingWithoutLocation = sampleFinding \<lparr> locations := [] \<rparr>"



section \<open>Sequencing of actions\<close>


lemma andThen_ret [simp]: "andThen (ret x) f = f x"
  by (simp add: andThen_def ret_def split: prod.splits)

lemma andThen_emit [simp]: "andThen (emit e) f = (e # fst (f ()), snd (f ()))"
  by (simp add: andThen_def emit_def split: prod.splits)

lemma andThen_processExit [simp]: "andThen (processExit c) f = processExit c"
  by (simp add: andThen_def processExit_def)

lemma andThen_throw [simp]: "andThen (throw m) f = throw m"
  by (simp add: andThen_def throw_def)

lemma andThen_pair_Inl [simp]: "andThen (t, Inl a) f = (t, Inl a)"
  by (simp add: andThen_def)

lemma andThen_pair_Inr [simp]: "andThen (t, Inr x) f = (t @ fst (f x), snd (f x))"
  by (simp add: andThen_def split: prod.splits)

lemma fst_snd_basic [simp]:
  "fst (ret x) = []" "snd (ret x) = Inr x"
  "fst (emit e) = [e]" "snd (emit e) = Inr ()"
  "fst (processExit c) = []" "snd (processExit c) = Inl (ProcessExit c)"
  "fst (throw m) = []" "snd (throw m) = Inl (Thrown m)"
  by (simp_all add: ret_def emit_def processExit_def throw_def)

lemma fst_andThen:
  "fst (andThen m f) = fst m @ (case snd m of Inl a \<Rightarrow> [] | Inr x \<Rightarrow> fst (f x))"
  by (cases m) (auto simp add: andThen_def split: sum.splits prod.splits)

lemma snd_andThen:
  "snd (andThen m f) = (case snd m of Inl a \<Rightarrow> Inl a | Inr x \<Rightarrow> snd (f x))"
  by (cases m) (auto simp add: andThen_def split: sum.splits prod.splits)

section \<open>The mapping of the engine's exit code\<close>

lemma liftE_cases: "snd (liftE r) = (case r of Inl m \<Rightarrow> Inl (Thrown m) | Inr x \<Rightarrow> Inr x)"
  by (simp add: liftE_def split: sum.splits)

lemma parseSarifResults_returns: "\<exists>v. snd (parseSarifResults h p) = Inr v"
  by (simp add: parseSarifResults_def split: sarifFile.splits option.splits list.splits)

lemma writeLeaksDetectedSummary_no_exit:
  "snd (writeLeaksDetectedSummary h url) = Inr () \<or> (\<exists>m. snd (writeLeaksDetectedSummary h url) = Inl (Thrown m))"
proof -
  obtain v where v: "snd (parseSarifResults h SARIF_FILE_PATH) = Inr v"
    using parseSarifResults_returns by blast
  show ?thesis
    by (cases "buildSecretsTable (the v) url")
      (auto simp add: writeLeaksDetectedSummary_def snd_andThen v liftE_def split: option.splits)
qed

lemma handleScanResult_snd:
  "snd (handleScanResult e) =
      (if e = 0 then Inr () else if e = 2 then Inl (ProcessExit 1) else Inl (ProcessExit e))"
  by (simp add: handleScanResult_def EXIT_STATUS_SUCCESS_def EXIT_STATUS_LEAKS_DETECTED_def
      EXIT_CODE_LEAKS_DETECTED_def EXIT_CODES_LEAKS_DETECTED_def)

lemma run_tail_status:
  "processStatus (andThen (generateSummary h e ev g) (\<lambda>_. handleScanResult e)) =
     (if e = 0 then 0 else if e = 2 then 1 else e)"
proof -
  note hs = handleScanResult_snd
  show ?thesis
  proof (cases g)
    case False
    then show ?thesis
      by (simp add: generateSummary_def processStatus_def hs)
  next
    case True
    consider "e = 0" | "e = 2" | "e \<noteq> 0 \<and> e \<noteq> 2" by blast
    then show ?thesis
    proof cases
      case 1
      with True show ?thesis
        by (simp add: generateSummary_def writeSummary_def writeSuccessSummary_def
            main_EXIT_CODES_SUCCESS_def processStatus_def hs)
    next
      case 2
      with True have "generateSummary h e ev g = writeLeaksDetectedSummary h (html_url (repository ev))"
        by (simp add: generateSummary_def writeSummary_def main_EXIT_CODES_SUCCESS_def
            main_EXIT_CODES_LEAKS_FOUND_def)
      with 2 writeLeaksDetectedSummary_no_exit [of h "html_url (repository ev)"] show ?thesis
        by (auto simp add: processStatus_def snd_andThen hs)
    next
      case 3
      with True show ?thesis
        by (simp add: generateSummary_def writeSummary_def writeErrorSummary_def
            main_EXIT_CODES_SUCCESS_def main_EXIT_CODES_LEAKS_FOUND_def processStatus_def hs Let_def)
    qed
  qed
qed

text \<open>
  Claim C1. Every exit code of the engine falls in exactly one of three cases. Code 0:
  \<^verbatim>\<open>handleScanResult\<close> returns, the process ends with status 0, and the summary is the
  success summary. Code 2: the process exits with the findings status 1, and the summary
  is the one for detected leaks. Any other code: the process exits with that very code,
  and the summary is the error summary for it. So the end of the run, the summary (written
  or not) followed by the handling of the exit code, leaves the process with status 0,
  1 or the engine's own code.
\<close>

theorem exit_code_mapping_total:
  "(e = 0 \<longrightarrow>
      snd (handleScanResult e) = Inr () \<and> processStatus (handleScanResult e) = 0
      \<and> writeSummary h e ev = writeSuccessSummary)
   \<and> (e = 2 \<longrightarrow>
      snd (handleScanResult e) = Inl (ProcessExit 1) \<and> processStatus (handleScanResult e) = 1
      \<and> writeSummary h e ev = writeLeaksDetectedSummary h (html_url (repository ev)))
   \<and> (e \<noteq> 0 \<and> e \<noteq> 2 \<longrightarrow>
      snd (handleScanResult e) = Inl (ProcessExit e) \<and> processStatus (handleScanResult e) = e
      \<and> writeSummary h e ev = writeErrorSummary e)
   \<and> processStatus (andThen (generateSummary h e ev g) (\<lambda>_. handleScanResult e)) =
       (if e = 0 then 0 else if e = 2 then 1 else e)"
proof -
  have ps: "processStatus (handleScanResult x) = (if x = 0 then 0 else if x = 2 then 1 else x)"
    for x
    by (simp add: processStatus_def handleScanResult_snd)
  have ws: "writeSummary h x ev =
      (if x = 0 then writeSuccessSummary
       else if x = 2 then writeLeaksDetectedSummary h (html_url (repository ev))
       else writeErrorSummary x)" for x
    by (simp add: writeSummary_def main_EXIT_CODES_SUCCESS_def main_EXIT_CODES_LEAKS_FOUND_def)
  show ?thesis
    by (simp add: ps ws handleScanResult_snd run_tail_status)
qed

theorem exit_code_mapping_total_witness:
  "processStatus (handleScanResult 0) = 0 \<and> processStatus (handleScanResult 2) = 1
   \<and> processStatus (handleScanResult 1) = 1 \<and> processStatus (handleScanResult 126) = 126
   \<and> snd (handleScanResult (- 1)) = Inl (ProcessExit (- 1))"
  using exit_code_mapping_total [of 0] exit_code_mapping_total [of 2]
    exit_code_mapping_total [of 1] exit_code_mapping_total [of 126]
    exit_code_mapping_total [of "- 1"]
  by simp

section \<open>The enable and disable flags\<close>

text \<open>
  Claim C10. The summary flag and the artifact-upload flag are off exactly when their
  variable is the string "false" or the string "0"; the comments flag is off exactly
  when its variable is the string "false", so that "0" leaves commenting on while it
  turns the other two off.
\<close>

theorem flags_parsed_asymmetrically:
  "enableSummary (parseEnvironmentConfig e) =
     (e ''GITLEAKS_ENABLE_SUMMARY'' \<noteq> Some ''false'' \<and> e ''GITLEAKS_ENABLE_SUMMARY'' \<noteq> Some ''0'')
   \<and> enableUploadArtifact (parseEnvironmentConfig e) =
     (e ''GITLEAKS_ENABLE_UPLOAD_ARTIFACT'' \<noteq> Some ''false''
        \<and> e ''GITLEAKS_ENABLE_UPLOAD_ARTIFACT'' \<noteq> Some ''0'')
   \<and> shouldPostComments e = (e ''GITLEAKS_ENABLE_COMMENTS'' \<noteq> Some ''false'')
   \<and> shouldPostComments (e(''GITLEAKS_ENABLE_COMMENTS'' \<mapsto> ''0''))
   \<and> \<not> enableSummary (parseEnvironmentConfig (e(''GITLEAKS_ENABLE_SUMMARY'' \<mapsto> ''0'')))
   \<and> \<not> enableUploadArtifact (parseEnvironmentConfig (e(''GITLEAKS_ENABLE_UPLOAD_ARTIFACT'' \<mapsto> ''0'')))"
  by (simp add: parseEnvironmentConfig_def parseBooleanEnv_def shouldPostComments_def Let_def)

theorem flags_parsed_asymmetrically_witness:
  "enableSummary (parseEnvironmentConfig Map.empty)
   \<and> enableUploadArtifact (parseEnvironmentConfig [''GITLEAKS_ENABLE_UPLOAD_ARTIFACT'' \<mapsto> ''''])
   \<and> \<not> shouldPostComments [''GITLEAKS_ENABLE_COMMENTS'' \<mapsto> ''false'']
   \<and> shouldPostComments [''GITLEAKS_ENABLE_COMMENTS'' \<mapsto> ''0'']"
  using flags_parsed_asymmetrically [of Map.empty]
    flags_parsed_asymmetrically [of "[''GITLEAKS_ENABLE_UPLOAD_ARTIFACT'' \<mapsto> '''']"]
    flags_parsed_asymmetrically [of "[''GITLEAKS_ENABLE_COMMENTS'' \<mapsto> ''false'']"]
  by simp

section \<open>The log range passed to the engine\<close>

lemma toString_scanExitCode: "toString scanExitCode = ''2''"
  unfolding scanExitCode_def by code_simp

lemma buildScanCommand_eq:
  "buildScanCommand si et =
     [''detect'', ''--redact'', ''-v'', ''--exit-code=2'', ''--report-format=sarif'',
      ''--report-path=results.sarif'', ''--log-level=debug'']
     @ (case buildGitLogOptions si et of None \<Rightarrow> []
        | Some logOpts \<Rightarrow> (if logOpts = [] then [] else [''--log-opts='' @ logOpts]))"
  by (simp add: buildScanCommand_def toString_scanExitCode scanCommand_def scanReportFormat_def
      sarifOutputFile_def scanLogLevel_def Let_def split: option.splits)

lemma Scan_runs_built_command:
  "Exec ''gitleaks'' (buildScanCommand si et) \<in> set (fst (Scan h up si et))"
  by (simp add: Scan_def Let_def)

text \<open>
  Claim C5. For a push or a pull-request scan, equal base and head references give the
  log range "-1" (the most recent commit only), which is what the command line of the
  engine then carries; different references give the range from the parent of the base
  to the head, after the two fixed log flags.
\<close>

theorem log_range_by_refs:
  assumes "eventType = ''push'' \<or> eventType = ''pull_request''"
  shows "(baseRef si = headRef si \<longrightarrow>
            buildGitLogOptions si eventType = Some ''-1''
            \<and> last (buildScanCommand si eventType) = ''--log-opts=-1'')
         \<and> (baseRef si \<noteq> headRef si \<longrightarrow>
            buildGitLogOptions si eventType =
              Some (''--no-merges --first-parent '' @ tpl (baseRef si) @ ''^..'' @ tpl (headRef si))
            \<and> last (buildScanCommand si eventType) =
              ''--log-opts=--no-merges --first-parent '' @ tpl (baseRef si) @ ''^..''
                @ tpl (headRef si))
         \<and> (baseRef si = Some b \<and> headRef si = Some t \<and> b \<noteq> t \<longrightarrow>
            buildGitLogOptions si eventType = Some (''--no-merges --first-parent '' @ b @ ''^..'' @ t))
         \<and> Exec ''gitleaks'' (buildScanCommand si eventType) \<in> set (fst (Scan h up si eventType))"
proof -
  have "Exec ''gitleaks'' (buildScanCommand si eventType) \<in> set (fst (Scan h up si eventType))"
    by (rule Scan_runs_built_command)
  moreover have "buildGitLogOptions si eventType =
      (if baseRef si = headRef si then Some ''-1''
       else Some (''--no-merges --first-parent '' @ tpl (baseRef si) @ ''^..'' @ tpl (headRef si)))"
    using assms by (auto simp add: buildGitLogOptions_def)
  moreover have "baseRef si = Some b \<and> headRef si = Some t \<longrightarrow> tpl (baseRef si) = b \<and> tpl (headRef si) = t"
    by (simp add: tpl_def)
  ultimately show ?thesis
    by (simp add: buildScanCommand_eq)
qed

theorem log_range_by_refs_witness:
  "buildGitLogOptions \<lparr> baseRef = Some ''abc'', headRef = Some ''abc'', gitleaksPath = None \<rparr> ''push''
     = Some ''-1''
   \<and> buildGitLogOptions \<lparr> baseRef = Some ''abc'', headRef = Some ''def'', gitleaksPath = None \<rparr>
       ''pull_request'' = Some ''--no-merges --first-parent abc^..def''"
  using log_range_by_refs [of "''push''" "\<lparr> baseRef = Some ''abc'', headRef = Some ''abc'', gitleaksPath = None \<rparr>" "''abc''" "''abc''"]
    log_range_by_refs [of "''pull_request''" "\<lparr> baseRef = Some ''abc'', headRef = Some ''def'', gitleaksPath = None \<rparr>" "''abc''" "''def''"]
  by (simp add: tpl_def)

section \<open>The key of the binary cache\<close>

text \<open>
  Claim C7, as stated, fails: on platform "win32" the cache key carries the name "win32",
  not the normalized name "windows".
\<close>

theorem cache_key_win32_counterexample:
  "buildCacheKey ''8.24.3'' ''win32'' ''x64'' = ''gitleaks-cache-8.24.3-win32-x64''
   \<and> buildCacheKey ''8.24.3'' ''win32'' ''x64''
       \<noteq> ''gitleaks-cache-'' @ ''8.24.3'' @ ''-'' @ normalizePlatform ''win32'' @ ''-'' @ ''x64''"
  by (simp add: buildCacheKey_def normalizePlatform_def)

text \<open>
  Claim C7, amended. The cache key is built from the version, the platform name as the
  process reports it (not normalized) and the architecture, and this is the key the
  installation asks the cache for; the normalized name, with "win32" mapped to
  "windows" and every other name kept, is used in the release URL only.
\<close>

theorem cache_key_uses_reported_platform:
  "buildCacheKey ver p a = ''gitleaks-cache-'' @ ver @ ''-'' @ p @ ''-'' @ a
   \<and> take 2 (fst (Install h ver)) =
       [Info (''Installing Gitleaks '' @ ver @ '' to '' @ getInstallPath h ver),
        RestoreCache (getInstallPath h ver)
          (''gitleaks-cache-'' @ ver @ ''-'' @ platform h @ ''-'' @ arch h)]
   \<and> buildReleaseUrl ver ''win32'' a =
       releaseBaseUrl @ ''/v'' @ ver @ ''/gitleaks_'' @ ver @ ''_windows_'' @ a @ ''.tar.gz''
   \<and> (p \<noteq> ''win32'' \<longrightarrow> buildReleaseUrl ver p a =
       releaseBaseUrl @ ''/v'' @ ver @ ''/gitleaks_'' @ ver @ ''_'' @ p @ ''_'' @ a @ ''.tar.gz'')"
  by (simp add: buildCacheKey_def Install_def Let_def tryRestoreFromCache_def
      buildReleaseUrl_def normalizePlatform_def split: sum.splits)

theorem cache_key_uses_reported_platform_witness:
  "buildCacheKey ''8.24.3'' ''win32'' ''x64'' = ''gitleaks-cache-8.24.3-win32-x64''
   \<and> buildCacheKey ''8.24.3'' ''linux'' ''x64'' = ''gitleaks-cache-8.24.3-linux-x64''
   \<and> buildReleaseUrl ''8.24.3'' ''linux'' ''x64'' =
       ''https://github.com/zricethezav/gitleaks/releases/download/v8.24.3/gitleaks_8.24.3_linux_x64.tar.gz''"
  using cache_key_uses_reported_platform [of "''8.24.3''" "''win32''" "''x64''"]
    cache_key_uses_reported_platform [of "''8.24.3''" "''linux''" "''x64''"]
  by (simp add: releaseBaseUrl_def)

section \<open>A push without commits\<close>

lemma quiet_andThen:
  assumes "quiet m" and "\<And>x. quiet (f x)"
  shows "quiet (andThen m f)"
proof (cases "snd m")
  case (Inl a)
  with assms(1) show ?thesis
    by (simp add: quiet_def fst_andThen snd_andThen)
next
  case (Inr x)
  with assms(1) assms(2) [of x] show ?thesis
    by (simp add: quiet_def fst_andThen snd_andThen)
qed

lemma quiet_basic [simp]: "quiet (ret x)" "quiet (throw m)" "\<not> isExec e \<Longrightarrow> quiet (emit e)"
  by (simp_all add: quiet_def)

lemma quiet_pair [simp]:
  "quiet (e # t, r) \<longleftrightarrow> \<not> isExec e \<and> quiet (t, r)"
  "quiet ([], Inr x)"
  "quiet ([], Inl (Thrown msg))"
  "quiet (fst m, snd m) \<longleftrightarrow> quiet m"
  by (simp_all add: quiet_def)

lemma quiet_Latest: "quiet (Latest client)"
  unfolding Latest_def by (intro quiet_andThen) (simp_all split: sum.splits)

lemma quiet_resolveGitleaksVersion: "quiet (resolveGitleaksVersion v client)"
  unfolding resolveGitleaksVersion_def
  by (cases "v = ''latest''") (simp_all add: quiet_andThen quiet_Latest)

lemma quiet_tryRestoreFromCache: "quiet (tryRestoreFromCache h ip k)"
  unfolding tryRestoreFromCache_def
  by (intro quiet_andThen) (simp_all add: quiet_andThen split: sum.splits)

lemma quiet_trySaveToCache: "quiet (trySaveToCache h ip k)"
  unfolding trySaveToCache_def
  by (intro quiet_andThen) (simp_all split: option.splits)

lemma quiet_downloadBinary: "quiet (downloadBinary h u d)"
  unfolding downloadBinary_def
  by (intro quiet_andThen) (simp_all add: quiet_andThen split: sum.splits)

lemma quiet_extractArchive: "quiet (extractArchive h ar d u)"
proof -
  have "quiet (case extractArchiveTool h ar d of None \<Rightarrow> ret () | Some m \<Rightarrow> throw m)"
    by (simp split: option.splits)
  then show ?thesis
    unfolding extractArchive_def by (simp add: quiet_andThen)
qed

lemma quiet_downloadAndInstallBinary: "quiet (downloadAndInstallBinary h v ip k)"
  unfolding downloadAndInstallBinary_def Let_def
  by (intro quiet_andThen quiet_downloadBinary quiet_extractArchive quiet_trySaveToCache) simp

lemma quiet_Install: "quiet (Install h v)"
  unfolding Install_def Let_def
  by (intro quiet_andThen quiet_tryRestoreFromCache)
     (simp_all add: quiet_downloadAndInstallBinary)

lemma endsCleanUnscanned_andThen:
  assumes "quiet m" and "\<And>x. endsCleanUnscanned (f x)"
  shows "endsCleanUnscanned (andThen m f)"
proof (cases "snd m")
  case (Inl a)
  with assms(1) show ?thesis
    by (cases a) (simp_all add: quiet_def endsCleanUnscanned_def fst_andThen snd_andThen)
next
  case (Inr x)
  with assms(1) assms(2) [of x] show ?thesis
    by (simp add: quiet_def endsCleanUnscanned_def fst_andThen snd_andThen)
qed

lemma endsCleanUnscanned_pair [simp]:
  "endsCleanUnscanned (e # t, r) \<longleftrightarrow> \<not> isExec e \<and> endsCleanUnscanned (t, r)"
  "endsCleanUnscanned ([], Inl (ProcessExit 0))"
  "endsCleanUnscanned (fst m, snd m) \<longleftrightarrow> endsCleanUnscanned m"
  by (simp_all add: endsCleanUnscanned_def)

lemma performScan_push_without_commits:
  assumes "commits ev = None \<or> commits ev = Some []"
  shows "performScan h ''push'' ev config =
           ([Info ''Event type: push'', Info ''No commits to scan''], Inl (ProcessExit 0))"
proof -
  have "buildPushScanInfo ev (cfg_baseRef config) =
          ([Info ''No commits to scan''], Inl (ProcessExit 0))"
    using assms by (auto simp add: buildPushScanInfo_def EXIT_STATUS_SUCCESS_def processExit_def)
  then show ?thesis
    by (simp add: performScan_def EVENT_PUSH_def Let_def)
qed

lemma run_push_without_commits:
  assumes "getEventInfo (env_of h) = (''push'', path)"
    and "eventOnDisk h path = Inr ev"
    and "commits ev = None \<or> commits ev = Some []"
  shows "endsCleanUnscanned (run h client)"
proof -
  define config where "config = parseEnvironmentConfig (env_of h)"
  define body where "body = (\<lambda>installed.
      andThen (performScan h ''push'' ev
            \<lparr> enableSummary = enableSummary config,
              enableUploadArtifact = enableUploadArtifact config,
              version = version config,
              cfg_baseRef = cfg_baseRef config,
              apiClient = client,
              eventData = ev,
              installedPath = installed \<rparr>) (\<lambda>exitCode.
      andThen (generateSummary h exitCode ev (enableSummary config)) (\<lambda>_.
      handleScanResult exitCode)))"
  have b: "endsCleanUnscanned (body installed)" for installed
    by (simp add: body_def performScan_push_without_commits [OF assms(3)])
  have i: "endsCleanUnscanned (andThen (Install h ver) body)" for ver
    by (rule endsCleanUnscanned_andThen [OF quiet_Install b])
  have v: "endsCleanUnscanned (andThen (emit (Info (''Gitleaks version: '' @ ver)))
             (\<lambda>_. andThen (Install h ver) body))" for ver
    using i [of ver] by simp
  have "endsCleanUnscanned (andThen (resolveGitleaksVersion (version config) client)
          (\<lambda>ver. andThen (emit (Info (''Gitleaks version: '' @ ver)))
             (\<lambda>_. andThen (Install h ver) body)))"
    by (rule endsCleanUnscanned_andThen [OF quiet_resolveGitleaksVersion v])
  then show ?thesis
    using assms(1,2)
    by (simp add: run_def body_def config_def Let_def validateEventType_def SUPPORTED_EVENTS_def
        EVENT_PUSH_def loadEventData_def normalizeScheduleEvent_def EVENT_SCHEDULE_def)
qed

text \<open>
  Claim C4. For a push event whose commit list is empty or absent, the scan step logs
  that there is nothing to scan and exits the process with the success status 0 at
  once; no command is run, so the engine is never invoked. For the run as a whole: it
  starts no subprocess, and it ends with the exit status 0 unless the resolution of the
  version or the installation before the scan step raises an error.
\<close>

theorem push_without_commits_exits_clean:
  assumes "commits ev = None \<or> commits ev = Some []"
  shows "performScan h ''push'' ev config =
           ([Info ''Event type: push'', Info ''No commits to scan''], Inl (ProcessExit 0))
         \<and> processStatus (performScan h ''push'' ev config) = 0
         \<and> \<not> list_ex isExec (fst (performScan h ''push'' ev config))
         \<and> (getEventInfo (env_of h) = (''push'', path) \<and> eventOnDisk h path = Inr ev
              \<longrightarrow> endsCleanUnscanned (run h client))"
  using run_push_without_commits [OF _ _ assms, of h path client]
  by (simp add: performScan_push_without_commits [OF assms] processStatus_def)

theorem push_without_commits_exits_clean_witness:
  "performScan (sampleHost Map.empty FileMissing) ''push'' (sampleEvent (Some []) None)
     (sampleConfig (sampleOctokit [] []) (sampleEvent (Some []) None))
   = ([Info ''Event type: push'', Info ''No commits to scan''], Inl (ProcessExit 0))
   \<and> commits (sampleEvent (Some []) None) = Some []
   \<and> endsCleanUnscanned
        (run ((sampleHost [''GITHUB_EVENT_NAME'' \<mapsto> ''push'', ''GITHUB_EVENT_PATH'' \<mapsto> ''/event.json'']
                 FileMissing) \<lparr> eventOnDisk := (\<lambda>_. Inr (sampleEvent (Some []) None)) \<rparr>)
           (sampleOctokit [] []))"
  using push_without_commits_exits_clean
    [of "sampleEvent (Some []) None" "sampleHost Map.empty FileMissing"
        "sampleConfig (sampleOctokit [] []) (sampleEvent (Some []) None)"]
    push_without_commits_exits_clean
    [of "sampleEvent (Some []) None"
        "(sampleHost [''GITHUB_EVENT_NAME'' \<mapsto> ''push'', ''GITHUB_EVENT_PATH'' \<mapsto> ''/event.json'']
                 FileMissing) \<lparr> eventOnDisk := (\<lambda>_. Inr (sampleEvent (Some []) None)) \<rparr>"
        "sampleConfig (sampleOctokit [] []) (sampleEvent (Some []) None)"
        "''/event.json''" "sampleOctokit [] []"]
  by (simp add: sampleEvent_def sampleHost_def getEventInfo_def orElse_def)

section \<open>The commit range of a pull request\<close>

lemma buildScanInfoFromCommits_override:
  assumes "truthy (Some b)" and "cs \<noteq> []"
  shows "buildScanInfoFromCommits cs (Some b) =
           ([Info (''Using base ref override: '' @ b)],
            Inr \<lparr> baseRef = Some b, headRef = Some (last cs), gitleaksPath = None \<rparr>)"
  using assms by (simp add: buildScanInfoFromCommits_def tpl_def ret_def)

lemma buildScanInfoFromCommits_plain:
  assumes "\<not> truthy ov" and "cs \<noteq> []"
  shows "buildScanInfoFromCommits cs ov =
           ([], Inr \<lparr> baseRef = Some (hd cs), headRef = Some (last cs), gitleaksPath = None \<rparr>)"
  using assms by (cases cs) (simp_all add: buildScanInfoFromCommits_def ret_def)

lemma fetchPullRequestCommits_ok:
  "pullCommits octokit owner repo n = Inr cs \<Longrightarrow>
     fetchPullRequestCommits octokit owner repo n = ([GetPullCommits owner repo n], Inr cs)"
  by (simp add: fetchPullRequestCommits_def ret_def)

lemma Scan_trace_starts:
  "\<exists>rest. fst (Scan h up si et) =
      [Info (''Executing: gitleaks '' @ joinWith '' '' (buildScanCommand si et)),
       Exec ''gitleaks'' (buildScanCommand si et)] @ rest"
  by (simp add: Scan_def Let_def)

lemma ScanPullRequest_trace_starts:
  assumes "truthy (env_of h ''GITHUB_TOKEN'')"
    and "pullRequestScanInfo h octokit (fst (extractRepoInfo (full_name (repository ev))))
             (snd (extractRepoInfo (full_name (repository ev)))) (number ev) ev = (t, Inr si)"
  shows "take (length t + 2) (fst (ScanPullRequest h up octokit ev eventType)) =
        t @ [Info (''Executing: gitleaks '' @ joinWith '' '' (buildScanCommand si eventType)),
             Exec ''gitleaks'' (buildScanCommand si eventType)]"
proof -
  obtain rest where r: "fst (Scan h up si eventType) =
      [Info (''Executing: gitleaks '' @ joinWith '' '' (buildScanCommand si eventType)),
       Exec ''gitleaks'' (buildScanCommand si eventType)] @ rest"
    using Scan_trace_starts by blast
  have "\<exists>more. fst (ScanPullRequest h up octokit ev eventType) = t @ fst (Scan h up si eventType) @ more"
    using assms
    by (simp add: ScanPullRequest_def validateGitHubToken_def case_prod_beta Let_def fst_andThen)
  then obtain more where "fst (ScanPullRequest h up octokit ev eventType) =
      t @ fst (Scan h up si eventType) @ more"
    by blast
  then show ?thesis
    by (simp add: r)
qed

text \<open>
  Claim C6. In a pull-request scan: with a base-ref override set, the commit list of the
  pull request is fetched, the override is the base and the last listed commit the head;
  without an override and with the payload's own base and head commits, these are used
  and no commit list is fetched; without either, the commit list is fetched and its first
  and last entries are the base and the head. The references chosen are the ones the
  engine's command line is then built from. (The fetched list is taken to be non-empty:
  on an empty one the read of its last entry raises.)
\<close>

theorem pull_request_range_resolution:
  "(env_of h ''BASE_REF'' = Some b \<and> b \<noteq> [] \<and> pullCommits octokit owner repo n = Inr cs \<and> cs \<noteq> [] \<longrightarrow>
      pullRequestScanInfo h octokit owner repo n ev =
        ([GetPullCommits owner repo n, Info (''Using base ref override: '' @ b)],
         Inr \<lparr> baseRef = Some b, headRef = Some (last cs), gitleaksPath = None \<rparr>))
   \<and> (\<not> truthy (env_of h ''BASE_REF'') \<and> pull_request ev = Some pr \<longrightarrow>
      pullRequestScanInfo h octokit owner repo n ev =
        ([Info (''Scanning PR from '' @ take 7 (base_sha pr) @ '' to '' @ take 7 (head_sha pr))],
         Inr \<lparr> baseRef = Some (base_sha pr), headRef = Some (head_sha pr), gitleaksPath = None \<rparr>))
   \<and> (\<not> truthy (env_of h ''BASE_REF'') \<and> pull_request ev = None
        \<and> pullCommits octokit owner repo n = Inr cs \<and> cs \<noteq> [] \<longrightarrow>
      pullRequestScanInfo h octokit owner repo n ev =
        ([GetPullCommits owner repo n],
         Inr \<lparr> baseRef = Some (hd cs), headRef = Some (last cs), gitleaksPath = None \<rparr>))
   \<and> (truthy (env_of h ''GITHUB_TOKEN'')
        \<and> pullRequestScanInfo h octokit (fst (extractRepoInfo (full_name (repository ev))))
             (snd (extractRepoInfo (full_name (repository ev)))) (number ev) ev = (t, Inr si) \<longrightarrow>
      take (length t + 2) (fst (ScanPullRequest h up octokit ev eventType)) =
        t @ [Info (''Executing: gitleaks '' @ joinWith '' '' (buildScanCommand si eventType)),
             Exec ''gitleaks'' (buildScanCommand si eventType)])"
proof (intro conjI impI)
  assume a: "env_of h ''BASE_REF'' = Some b \<and> b \<noteq> [] \<and> pullCommits octokit owner repo n = Inr cs \<and> cs \<noteq> []"
  then have "truthy (Some b)" by (simp add: truthy_def)
  with a show "pullRequestScanInfo h octokit owner repo n ev =
        ([GetPullCommits owner repo n, Info (''Using base ref override: '' @ b)],
         Inr \<lparr> baseRef = Some b, headRef = Some (last cs), gitleaksPath = None \<rparr>)"
    by (simp add: pullRequestScanInfo_def fetchPullRequestCommits_ok
        buildScanInfoFromCommits_override)
next
  assume "\<not> truthy (env_of h ''BASE_REF'') \<and> pull_request ev = Some pr"
  then show "pullRequestScanInfo h octokit owner repo n ev =
        ([Info (''Scanning PR from '' @ take 7 (base_sha pr) @ '' to '' @ take 7 (head_sha pr))],
         Inr \<lparr> baseRef = Some (base_sha pr), headRef = Some (head_sha pr), gitleaksPath = None \<rparr>)"
    by (simp add: pullRequestScanInfo_def Let_def ret_def)
next
  assume a: "\<not> truthy (env_of h ''BASE_REF'') \<and> pull_request ev = None
        \<and> pullCommits octokit owner repo n = Inr cs \<and> cs \<noteq> []"
  then have "buildScanInfoFromCommits cs None =
      ([], Inr \<lparr> baseRef = Some (hd cs), headRef = Some (last cs), gitleaksPath = None \<rparr>)"
    by (simp add: buildScanInfoFromCommits_plain truthy_def)
  with a show "pullRequestScanInfo h octokit owner repo n ev =
        ([GetPullCommits owner repo n],
         Inr \<lparr> baseRef = Some (hd cs), headRef = Some (last cs), gitleaksPath = None \<rparr>)"
    by (simp add: pullRequestScanInfo_def fetchPullRequestCommits_ok)
next
  assume a: "truthy (env_of h ''GITHUB_TOKEN'')
        \<and> pullRequestScanInfo h octokit (fst (extractRepoInfo (full_name (repository ev))))
             (snd (extractRepoInfo (full_name (repository ev)))) (number ev) ev = (t, Inr si)"
  then show "take (length t + 2) (fst (ScanPullRequest h up octokit ev eventType)) =
        t @ [Info (''Executing: gitleaks '' @ joinWith '' '' (buildScanCommand si eventType)),
             Exec ''gitleaks'' (buildScanCommand si eventType)]"
    using ScanPullRequest_trace_starts [of h octokit ev t si up eventType] by blast
qed

theorem pull_request_range_resolution_witness:
  "pullRequestScanInfo (sampleHost [''BASE_REF'' \<mapsto> ''aaa0000''] FileMissing)
       (sampleOctokit [''ccc1111'', ''ddd2222''] []) (Some ''acme'') (Some ''shop'') 7
       (sampleEvent None (Some \<lparr> base_sha = ''aaa1111'', head_sha = ''bbb2222'' \<rparr>))
     = ([GetPullCommits (Some ''acme'') (Some ''shop'') 7, Info ''Using base ref override: aaa0000''],
        Inr \<lparr> baseRef = Some ''aaa0000'', headRef = Some ''ddd2222'', gitleaksPath = None \<rparr>)
   \<and> pullRequestScanInfo (sampleHost Map.empty FileMissing)
       (sampleOctokit [''ccc1111'', ''ddd2222''] []) (Some ''acme'') (Some ''shop'') 7
       (sampleEvent None (Some \<lparr> base_sha = ''aaa1111'', head_sha = ''bbb2222'' \<rparr>))
     = ([Info ''Scanning PR from aaa1111 to bbb2222''],
        Inr \<lparr> baseRef = Some ''aaa1111'', headRef = Some ''bbb2222'', gitleaksPath = None \<rparr>)
   \<and> pullRequestScanInfo (sampleHost Map.empty FileMissing)
       (sampleOctokit [''ccc1111'', ''ddd2222''] []) (Some ''acme'') (Some ''shop'') 7
       (sampleEvent None None)
     = ([GetPullCommits (Some ''acme'') (Some ''shop'') 7],
        Inr \<lparr> baseRef = Some ''ccc1111'', headRef = Some ''ddd2222'', gitleaksPath = None \<rparr>)"
  using pull_request_range_resolution
      [of "sampleHost [''BASE_REF'' \<mapsto> ''aaa0000''] FileMissing" "''aaa0000''"
          "sampleOctokit [''ccc1111'', ''ddd2222''] []" "Some ''acme''" "Some ''shop''" 7
          "[''ccc1111'', ''ddd2222'']"
          "sampleEvent None (Some \<lparr> base_sha = ''aaa1111'', head_sha = ''bbb2222'' \<rparr>)"]
    pull_request_range_resolution
      [of "sampleHost Map.empty FileMissing" "[]"
          "sampleOctokit [''ccc1111'', ''ddd2222''] []" "Some ''acme''" "Some ''shop''" 7
          "[''ccc1111'', ''ddd2222'']"
          "sampleEvent None (Some \<lparr> base_sha = ''aaa1111'', head_sha = ''bbb2222'' \<rparr>)"
          "\<lparr> base_sha = ''aaa1111'', head_sha = ''bbb2222'' \<rparr>"]
    pull_request_range_resolution
      [of "sampleHost Map.empty FileMissing" "[]"
          "sampleOctokit [''ccc1111'', ''ddd2222''] []" "Some ''acme''" "Some ''shop''" 7
          "[''ccc1111'', ''ddd2222'']"
          "sampleEvent None None"]
  by (simp add: sampleHost_def sampleOctokit_def sampleEvent_def truthy_def)

section \<open>A report without findings\<close>

lemma parseSarifFile_no_findings:
  assumes "sarifOnDisk h = FileMissing \<or> sarifOnDisk h = ParseFailure m
           \<or> sarifOnDisk h = Document None \<or> sarifOnDisk h = Document (Some [])
           \<or> sarifOnDisk h = Document (Some (r # rs)) \<and> (results r = None \<or> results r = Some [])"
  shows "\<exists>t. (\<forall>e \<in> set t. \<exists>w. e = Warning w)
           \<and> (parseSarifFile h = (t, Inr None) \<or> parseSarifFile h = (t, Inr (Some [])))"
  using assms by (auto simp add: parseSarifFile_def ret_def)

lemma parseSarifResults_no_findings:
  assumes "sarifOnDisk h = FileMissing \<or> sarifOnDisk h = ParseFailure m
           \<or> sarifOnDisk h = Document None \<or> sarifOnDisk h = Document (Some [])
           \<or> sarifOnDisk h = Document (Some (r # rs)) \<and> (results r = None \<or> results r = Some [])"
  shows "\<exists>t. (\<forall>e \<in> set t. \<exists>w. e = Warning w)
           \<and> (parseSarifResults h p = (t, Inr None) \<or> parseSarifResults h p = (t, Inr (Some [])))"
  using assms by (auto simp add: parseSarifResults_def ret_def)

text \<open>
  The reporting steps after a scan that reported leaks: on a report that is missing,
  cannot be read or parsed, has no first run with results, or has an empty list of
  results, comment posting returns without a request to the API and the summary is the
  heading "leaks reported but no details found".
\<close>

lemma reporting_degrades_without_findings:
  assumes "sarifOnDisk h = FileMissing \<or> sarifOnDisk h = ParseFailure m
           \<or> sarifOnDisk h = Document None \<or> sarifOnDisk h = Document (Some [])
           \<or> sarifOnDisk h = Document (Some (r # rs)) \<and> (results r = None \<or> results r = Some [])"
  shows "snd (postPullRequestComments h octokit owner repo n 2) = Inr ()
         \<and> (\<forall>e \<in> set (fst (postPullRequestComments h octokit owner repo n 2)). \<exists>w. e = Warning w)
         \<and> snd (writeSummary h 2 ev) = Inr ()
         \<and> last (fst (writeSummary h 2 ev)) =
             WriteSummary [Heading (mainWarningSign @ '' Gitleaks reported leaks but no details found'')]
         \<and> (\<forall>e \<in> set (butlast (fst (writeSummary h 2 ev))). \<exists>w. e = Warning w)
         \<and> processStatus (andThen (generateSummary h 2 ev True) (\<lambda>_. handleScanResult 2)) = 1"
proof -
  obtain t1 where t1: "\<forall>e \<in> set t1. \<exists>w. e = Warning w"
    and p1: "parseSarifFile h = (t1, Inr None) \<or> parseSarifFile h = (t1, Inr (Some []))"
    using parseSarifFile_no_findings [OF assms] by blast
  obtain t2 where t2: "\<forall>e \<in> set t2. \<exists>w. e = Warning w"
    and p2: "parseSarifResults h SARIF_FILE_PATH = (t2, Inr None)
             \<or> parseSarifResults h SARIF_FILE_PATH = (t2, Inr (Some []))"
    using parseSarifResults_no_findings [OF assms] by blast
  have c: "postPullRequestComments h octokit owner repo n 2 = (t1, Inr ())"
    using p1 by (auto simp add: postPullRequestComments_def EXIT_CODES_LEAKS_DETECTED_def ret_def)
  have s: "writeSummary h 2 ev =
      (t2 @ [WriteSummary [Heading (mainWarningSign @ '' Gitleaks reported leaks but no details found'')]],
       Inr ())"
    using p2
    by (auto simp add: writeSummary_def writeLeaksDetectedSummary_def
        main_EXIT_CODES_SUCCESS_def main_EXIT_CODES_LEAKS_FOUND_def emit_def)
  have g: "processStatus (andThen (generateSummary h 2 ev True) (\<lambda>_. handleScanResult 2)) = 1"
    by (simp add: generateSummary_def s processStatus_def handleScanResult_def
        EXIT_STATUS_SUCCESS_def EXIT_CODE_LEAKS_DETECTED_def EXIT_CODES_LEAKS_DETECTED_def
        EXIT_STATUS_LEAKS_DETECTED_def)
  show ?thesis
    using t1 t2 g by (simp add: c s)
qed

lemma toString_2: "toString 2 = ''2''"
  by code_simp

lemmas run_unfold =
  run_def parseEnvironmentConfig_def parseBooleanEnv_def getEventInfo_def orElse_def
  validateEventType_def SUPPORTED_EVENTS_def EVENT_PUSH_def EVENT_PULL_REQUEST_def
  EVENT_WORKFLOW_DISPATCH_def EVENT_SCHEDULE_def loadEventData_def normalizeScheduleEvent_def
  resolveGitleaksVersion_def DEFAULT_GITLEAKS_VERSION_def Install_def getInstallPath_def
  tryRestoreFromCache_def buildCacheKey_def performScan_def buildPushScanInfo_def truthy_def
  executeScan_def Scan_def buildScanCommand_eq buildGitLogOptions_def tpl_def
  uploadScanArtifact_def generateSummary_def writeSummary_def writeLeaksDetectedSummary_def
  parseSarifResults_def buildSecretsTable_def formatSecretRow_def firstLocation_def liftE_def
  sampleRunHost_def sampleHost_def sampleEvent_def sampleOctokit_def findingWithoutLocation_def
  sampleFinding_def toString_2 Let_def main_EXIT_CODES_SUCCESS_def main_EXIT_CODES_LEAKS_FOUND_def
  EXIT_STATUS_SUCCESS_def

lemmas pr_unfold =
  ScanPullRequest_def validateGitHubToken_def extractRepoInfo_def pullRequestScanInfo_def
  shouldPostComments_def postPullRequestComments_def parseSarifFile_def
  fetchExistingComments_def buildReviewComment_def EXIT_CODES_LEAKS_DETECTED_def

text \<open>
  Claim C9. The claim asks that no run whose engine reported leaks fails on a missing or
  malformed report. The code falls short of it at two places. A report that parses and
  holds a result without a location makes the building of the review comment and of the
  summary row raise a TypeError that nothing catches. A missing report, with the upload
  of the report as an artifact switched on (the default), makes the unguarded upload raise
  once the artifact client refuses the missing file. In both cases the run ends in the
  handler of uncaught errors and no summary is written, as the runs below show: a push
  and a pull request with a result without a location, and a push with a missing report.
\<close>

theorem report_failures_end_the_run:
  "snd (run (sampleRunHost ''push''
               (Document (Some [\<lparr> results = Some [findingWithoutLocation] \<rparr>]))
               (sampleEvent (Some [''aaa1111'', ''bbb2222'']) None))
            (sampleOctokit [] []))
     = Inl (Thrown (typeErrorUndefined ''physicalLocation''))
   \<and> \<not> list_ex isWriteSummary (fst (run (sampleRunHost ''push''
               (Document (Some [\<lparr> results = Some [findingWithoutLocation] \<rparr>]))
               (sampleEvent (Some [''aaa1111'', ''bbb2222'']) None))
            (sampleOctokit [] [])))
   \<and> snd (run (sampleRunHost ''pull_request''
               (Document (Some [\<lparr> results = Some [findingWithoutLocation] \<rparr>]))
               (sampleEvent None (Some \<lparr> base_sha = ''aaa1111'', head_sha = ''bbb2222'' \<rparr>)))
            (sampleOctokit [] []))
     = Inl (Thrown (typeErrorUndefined ''physicalLocation''))
   \<and> \<not> list_ex isWriteSummary (fst (run (sampleRunHost ''pull_request''
               (Document (Some [\<lparr> results = Some [findingWithoutLocation] \<rparr>]))
               (sampleEvent None (Some \<lparr> base_sha = ''aaa1111'', head_sha = ''bbb2222'' \<rparr>)))
            (sampleOctokit [] [])))
   \<and> snd (run ((sampleRunHost ''push'' FileMissing (sampleEvent (Some [''aaa1111'', ''bbb2222'']) None))
               \<lparr> uploadArtifact := (\<lambda>_ _ _. Some ''results.sarif does not exist'') \<rparr>)
            (sampleOctokit [] []))
     = Inl (Thrown ''results.sarif does not exist'')
   \<and> \<not> list_ex isWriteSummary (fst (run
            ((sampleRunHost ''push'' FileMissing (sampleEvent (Some [''aaa1111'', ''bbb2222'']) None))
               \<lparr> uploadArtifact := (\<lambda>_ _ _. Some ''results.sarif does not exist'') \<rparr>)
            (sampleOctokit [] [])))"
proof (intro conjI)
  show "snd (run (sampleRunHost ''push''
               (Document (Some [\<lparr> results = Some [findingWithoutLocation] \<rparr>]))
               (sampleEvent (Some [''aaa1111'', ''bbb2222'']) None))
            (sampleOctokit [] []))
     = Inl (Thrown (typeErrorUndefined ''physicalLocation''))"
    by (simp add: run_unfold)
  show "\<not> list_ex isWriteSummary (fst (run (sampleRunHost ''push''
               (Document (Some [\<lparr> results = Some [findingWithoutLocation] \<rparr>]))
               (sampleEvent (Some [''aaa1111'', ''bbb2222'']) None))
            (sampleOctokit [] [])))"
    by (simp add: run_unfold)
  show "snd (run (sampleRunHost ''pull_request''
               (Document (Some [\<lparr> results = Some [findingWithoutLocation] \<rparr>]))
               (sampleEvent None (Some \<lparr> base_sha = ''aaa1111'', head_sha = ''bbb2222'' \<rparr>)))
            (sampleOctokit [] []))
     = Inl (Thrown (typeErrorUndefined ''physicalLocation''))"
    by (simp add: run_unfold pr_unfold)
  show "\<not> list_ex isWriteSummary (fst (run (sampleRunHost ''pull_request''
               (Document (Some [\<lparr> results = Some [findingWithoutLocation] \<rparr>]))
               (sampleEvent None (Some \<lparr> base_sha = ''aaa1111'', head_sha = ''bbb2222'' \<rparr>)))
            (sampleOctokit [] [])))"
    by (simp add: run_unfold pr_unfold)
  show "snd (run ((sampleRunHost ''push'' FileMissing (sampleEvent (Some [''aaa1111'', ''bbb2222'']) None))
               \<lparr> uploadArtifact := (\<lambda>_ _ _. Some ''results.sarif does not exist'') \<rparr>)
            (sampleOctokit [] []))
     = Inl (Thrown ''results.sarif does not exist'')"
    by (simp add: run_unfold)
  show "\<not> list_ex isWriteSummary (fst (run
            ((sampleRunHost ''push'' FileMissing (sampleEvent (Some [''aaa1111'', ''bbb2222'']) None))
               \<lparr> uploadArtifact := (\<lambda>_ _ _. Some ''results.sarif does not exist'') \<rparr>)
            (sampleOctokit [] [])))"
    by (simp add: run_unfold)
qed

section \<open>The custom configuration file of the engine\<close>

lemma extractArchive_env:
  "extractArchive (h\<lparr> env_of := e' \<rparr>) a d u = extractArchive h a d u"
  by (simp add: extractArchive_def cong: if_cong)

lemma downloadBinary_env:
  "downloadBinary (h\<lparr> env_of := e' \<rparr>) u d = downloadBinary h u d"
  by (simp add: downloadBinary_def
      cong: if_cong option.case_cong sum.case_cong)

lemma trySaveToCache_env:
  "trySaveToCache (h\<lparr> env_of := e' \<rparr>) p k = trySaveToCache h p k"
  by (simp add: trySaveToCache_def
      cong: if_cong option.case_cong sum.case_cong)

lemma downloadAndInstallBinary_env:
  "downloadAndInstallBinary (h\<lparr> env_of := e' \<rparr>) ver p k = downloadAndInstallBinary h ver p k"
  by (simp add: downloadAndInstallBinary_def downloadBinary_env extractArchive_env
      trySaveToCache_env Let_def cong: if_cong option.case_cong sum.case_cong)

lemma tryRestoreFromCache_env:
  "tryRestoreFromCache (h\<lparr> env_of := e' \<rparr>) p k = tryRestoreFromCache h p k"
  by (simp add: tryRestoreFromCache_def
      cong: if_cong option.case_cong sum.case_cong)

lemma Install_env: "Install (h\<lparr> env_of := e' \<rparr>) ver = Install h ver"
  by (simp add: Install_def getInstallPath_def tryRestoreFromCache_env
      downloadAndInstallBinary_env Let_def
      cong: if_cong option.case_cong sum.case_cong)

lemma Scan_ignores:
  assumes "\<forall>args. engine h ((env_of h)(''GITLEAKS_CONFIG'' := x)) args = engine h (env_of h) args"
  shows "Scan (h\<lparr> env_of := (env_of h)(''GITLEAKS_CONFIG'' := x) \<rparr>) up si et = Scan h up si et"
  using assms
  by (simp add: Scan_def uploadScanArtifact_def Let_def
      cong: if_cong option.case_cong sum.case_cong)

lemma parseSarifFile_env: "parseSarifFile (h\<lparr> env_of := e' \<rparr>) = parseSarifFile h"
  by (simp add: parseSarifFile_def
      cong: if_cong option.case_cong sum.case_cong)

lemma writeSummary_env: "writeSummary (h\<lparr> env_of := e' \<rparr>) c ev = writeSummary h c ev"
  by (simp add: writeSummary_def writeLeaksDetectedSummary_def parseSarifResults_def
      cong: if_cong option.case_cong sum.case_cong)

lemma generateSummary_env:
  "generateSummary (h\<lparr> env_of := e' \<rparr>) c ev g = generateSummary h c ev g"
  by (simp add: generateSummary_def writeSummary_env
      cong: if_cong option.case_cong sum.case_cong)

lemma loadEventData_env: "loadEventData (h\<lparr> env_of := e' \<rparr>) p = loadEventData h p"
  by (simp add: loadEventData_def
      cong: if_cong option.case_cong sum.case_cong)

lemma parseEnvironmentConfig_ignores:
  "parseEnvironmentConfig (e(''GITLEAKS_CONFIG'' := x)) = parseEnvironmentConfig e"
  by (simp add: parseEnvironmentConfig_def parseBooleanEnv_def
      cong: if_cong option.case_cong sum.case_cong)

lemma getEventInfo_ignores: "getEventInfo (e(''GITLEAKS_CONFIG'' := x)) = getEventInfo e"
  by (simp add: getEventInfo_def
      cong: if_cong option.case_cong sum.case_cong)

lemma normalizeScheduleEvent_ignores:
  "normalizeScheduleEvent (e(''GITLEAKS_CONFIG'' := x)) ev et = normalizeScheduleEvent e ev et"
  by (simp add: normalizeScheduleEvent_def Let_def
      cong: if_cong option.case_cong sum.case_cong)

lemma postEach_ignores:
  "postEach (e(''GITLEAKS_CONFIG'' := x)) octokit ex owner repo n secrets
     = postEach e octokit ex owner repo n secrets"
  by (induction secrets) (simp_all add: buildReviewComment_def)

lemma postPullRequestComments_ignores:
  "postPullRequestComments (h\<lparr> env_of := (env_of h)(''GITLEAKS_CONFIG'' := x) \<rparr>) octokit owner repo n c
     = postPullRequestComments h octokit owner repo n c"
  by (simp add: postPullRequestComments_def parseSarifFile_env postEach_ignores
      cong: if_cong option.case_cong sum.case_cong)

lemma pullRequestScanInfo_ignores:
  "pullRequestScanInfo (h\<lparr> env_of := (env_of h)(''GITLEAKS_CONFIG'' := x) \<rparr>) octokit owner repo n ev
     = pullRequestScanInfo h octokit owner repo n ev"
  by (simp add: pullRequestScanInfo_def Let_def
      cong: if_cong option.case_cong sum.case_cong)

lemma ScanPullRequest_ignores:
  assumes "\<forall>args. engine h ((env_of h)(''GITLEAKS_CONFIG'' := x)) args = engine h (env_of h) args"
  shows "ScanPullRequest (h\<lparr> env_of := (env_of h)(''GITLEAKS_CONFIG'' := x) \<rparr>) up octokit ev et
     = ScanPullRequest h up octokit ev et"
  by (simp add: ScanPullRequest_def validateGitHubToken_def shouldPostComments_def
      Scan_ignores [OF assms] postPullRequestComments_ignores pullRequestScanInfo_ignores Let_def
      cong: if_cong option.case_cong sum.case_cong)

lemma performScan_ignores:
  assumes "\<forall>args. engine h ((env_of h)(''GITLEAKS_CONFIG'' := x)) args = engine h (env_of h) args"
  shows "performScan (h\<lparr> env_of := (env_of h)(''GITLEAKS_CONFIG'' := x) \<rparr>) et ev config
     = performScan h et ev config"
  by (simp add: performScan_def executeScan_def Scan_ignores [OF assms]
      ScanPullRequest_ignores [OF assms] Let_def
      cong: if_cong option.case_cong sum.case_cong)

lemma run_ignores:
  assumes "\<forall>args. engine h ((env_of h)(''GITLEAKS_CONFIG'' := x)) args = engine h (env_of h) args"
  shows "run (h\<lparr> env_of := (env_of h)(''GITLEAKS_CONFIG'' := x) \<rparr>) client = run h client"
  by (simp add: run_def parseEnvironmentConfig_ignores getEventInfo_ignores
      normalizeScheduleEvent_ignores loadEventData_env Install_env performScan_ignores [OF assms]
      generateSummary_env Let_def
      cong: if_cong option.case_cong sum.case_cong)

lemma buildScanCommand_no_config_flag:
  "a \<in> set (buildScanCommand si et) \<Longrightarrow> \<not> prefix ''--config'' a \<and> \<not> prefix ''-c'' a"
  by (auto simp add: buildScanCommand_eq split: option.splits if_splits)

lemma custom_config_not_in_record_or_command_line:
  "parseEnvironmentConfig (e(''GITLEAKS_CONFIG'' := x)) = parseEnvironmentConfig e
   \<and> (a \<in> set (buildScanCommand si et) \<longrightarrow> \<not> prefix ''--config'' a \<and> \<not> prefix ''-c'' a)"
  using buildScanCommand_no_config_flag [of a si et]
  by (simp add: parseEnvironmentConfig_ignores)








section \<open>The fingerprint of a finding\<close>

lemma digitsOf_nonempty: "digitsOf n \<noteq> []"
  by (subst digitsOf.simps) simp

lemma digitsOf_chars: "c \<in> set (digitsOf n) \<Longrightarrow> \<exists>d::nat. d < 10 \<and> c = char_of (48 + d)"
proof (induction n rule: digitsOf.induct)
  case (1 n)
  show ?case
  proof (cases "n < 10")
    case True
    with "1.prems" show ?thesis
      by (subst (asm) digitsOf.simps) auto
  next
    case False
    with "1.prems" have "c \<in> set (digitsOf (n div 10)) \<or> c = char_of (48 + n mod 10)"
      by (subst (asm) digitsOf.simps) auto
    then show ?thesis
    proof
      assume "c \<in> set (digitsOf (n div 10))"
      with False "1.IH" show ?thesis by blast
    next
      assume "c = char_of (48 + n mod 10)"
      moreover have "n mod 10 < 10" by simp
      ultimately show ?thesis by blast
    qed
  qed
qed

lemma digit_char_code: "d < 10 \<Longrightarrow> of_char (char_of (48 + d :: nat)) = 48 + d"
  by simp

lemma colon_not_digit: "CHR '':'' \<notin> set (digitsOf n)"
proof
  assume "CHR '':'' \<in> set (digitsOf n)"
  then obtain d :: nat where d: "d < 10" "CHR '':'' = char_of (48 + d)"
    using digitsOf_chars by blast
  then have "of_char (CHR '':'') = (48 + d :: nat)"
    using digit_char_code by metis
  moreover have "of_char (CHR '':'') = (58 :: nat)"
    by simp
  ultimately show False
    using d by linarith
qed

lemma minus_not_digit: "CHR ''-'' \<notin> set (digitsOf n)"
proof
  assume "CHR ''-'' \<in> set (digitsOf n)"
  then obtain d :: nat where d: "d < 10" "CHR ''-'' = char_of (48 + d)"
    using digitsOf_chars by blast
  then have "of_char (CHR ''-'') = (48 + d :: nat)"
    using digit_char_code by metis
  moreover have "of_char (CHR ''-'') = (45 :: nat)"
    by simp
  ultimately show False
    using d by linarith
qed

lemma digit_char_inj: "a < 10 \<Longrightarrow> b < 10 \<Longrightarrow> char_of (48 + a :: nat) = char_of (48 + b) \<Longrightarrow> a = b"
  by simp

lemma digitsOf_inj: "digitsOf n = digitsOf m \<Longrightarrow> n = m"
proof (induction n arbitrary: m rule: digitsOf.induct)
  case (1 n)
  show ?case
  proof (cases "n < 10")
    case n: True
    show ?thesis
    proof (cases "m < 10")
      case True
      with n "1.prems" have "char_of (48 + n) = char_of (48 + m)"
        by (simp add: digitsOf.simps [of n] digitsOf.simps [of m])
      with n True show ?thesis by (rule digit_char_inj)
    next
      case False
      with n "1.prems" have "[char_of (48 + n)] = digitsOf (m div 10) @ [char_of (48 + m mod 10)]"
        by (simp add: digitsOf.simps [of n] digitsOf.simps [of m])
      then show ?thesis using digitsOf_nonempty [of "m div 10"] by simp
    qed
  next
    case n: False
    show ?thesis
    proof (cases "m < 10")
      case True
      with n "1.prems" have "digitsOf (n div 10) @ [char_of (48 + n mod 10)] = [char_of (48 + m)]"
        by (simp add: digitsOf.simps [of n] digitsOf.simps [of m])
      then show ?thesis using digitsOf_nonempty [of "n div 10"] by simp
    next
      case False
      with n "1.prems" have e: "digitsOf (n div 10) = digitsOf (m div 10)"
        and l: "char_of (48 + n mod 10) = char_of (48 + m mod 10)"
        by (simp_all add: digitsOf.simps [of n] digitsOf.simps [of m])
      from e n have "n div 10 = m div 10" by (rule "1.IH" [rotated])
      moreover from l have "n mod 10 = m mod 10"
        by (intro digit_char_inj) simp_all
      ultimately show ?thesis
        by (metis div_mult_mod_eq)
    qed
  qed
qed

lemma colon_not_in_toString: "CHR '':'' \<notin> set (toString i)"
  by (simp add: toString_def colon_not_digit)

lemma toString_inj: "toString i = toString j \<Longrightarrow> i = j"
proof -
  assume e: "toString i = toString j"
  have neg: "CHR ''-'' # digitsOf a \<noteq> digitsOf b" for a b
  proof
    assume "CHR ''-'' # digitsOf a = digitsOf b"
    then have "CHR ''-'' \<in> set (digitsOf b)" by (metis list.set_intros(1))
    then show False using minus_not_digit by blast
  qed
  show "i = j"
  proof (cases "i < 0")
    case i: True
    show ?thesis
    proof (cases "j < 0")
      case True
      with i e have "nat (- i) = nat (- j)" by (simp add: toString_def digitsOf_inj)
      with i True show ?thesis by simp
    next
      case False
      with i e show ?thesis using neg [of "nat (- i)" "nat j"] by (simp add: toString_def)
    qed
  next
    case i: False
    show ?thesis
    proof (cases "j < 0")
      case True
      with i e show ?thesis using neg [of "nat (- j)" "nat i"] by (simp add: toString_def)
    next
      case False
      with i e have "nat i = nat j" by (simp add: toString_def digitsOf_inj)
      with i False show ?thesis by simp
    qed
  qed
qed

lemma split_at_first:
  "c \<notin> set a \<Longrightarrow> c \<notin> set b \<Longrightarrow> a @ c # x = b @ c # y \<Longrightarrow> a = b \<and> x = y"
proof (induction a arbitrary: b)
  case Nil
  then show ?case by (cases b) auto
next
  case (Cons u a)
  then show ?case by (cases b) auto
qed

lemma split_at_last:
  assumes "c \<notin> set x" and "c \<notin> set y" and "a @ c # x = b @ c # y"
  shows "a = b \<and> x = y"
proof -
  from assms(3) have "rev x @ c # rev a = rev y @ c # rev b"
    by (metis rev.simps(2) rev_append append_assoc append_Cons append_Nil)
  with assms(1,2) have "rev x = rev y \<and> rev a = rev b"
    by (intro split_at_first [of c]) simp_all
  then show ?thesis by simp
qed

lemma toString_1: "toString 1 = ''1''"
  by code_simp

lemma toString_12: "toString 12 = ''12''"
  by code_simp

text \<open>
  Claim C3, as stated, fails: the fields are joined with ":" and may themselves hold
  a ":". Two findings of the same commit and line, one in file "a:b" by rule "c", the
  other in file "a" by rule "b:c", have the same fingerprint.
\<close>

theorem fingerprint_colon_counterexample:
  "buildSecretFingerprint
      \<lparr> ruleId = ''c'', commitSha = ''abc'', author = [], date = [], email = [],
        locations = [\<lparr> uri = ''a:b'', startLine = 1 \<rparr>] \<rparr>
   = buildSecretFingerprint
      \<lparr> ruleId = ''b:c'', commitSha = ''abc'', author = [], date = [], email = [],
        locations = [\<lparr> uri = ''a'', startLine = 1 \<rparr>] \<rparr>
   \<and> buildSecretFingerprint
      \<lparr> ruleId = ''c'', commitSha = ''abc'', author = [], date = [], email = [],
        locations = [\<lparr> uri = ''a:b'', startLine = 1 \<rparr>] \<rparr> = Inr ''abc:a:b:c:1''
   \<and> ''a:b'' \<noteq> ''a'' \<and> ''c'' \<noteq> ''b:c''"
  by (simp add: buildSecretFingerprint_def firstLocation_def toString_1)

text \<open>
  Claim C3, amended. Over findings whose commit identifier and rule identifier hold no
  ":" (the file path may), the fingerprint is injective: two findings that differ in the
  commit, the file path, the rule or the start line have different fingerprints.
\<close>

theorem fingerprint_injective_without_colons:
  assumes "buildSecretFingerprint F1 = Inr s1" and "buildSecretFingerprint F2 = Inr s2"
    and "firstLocation F1 = Inr l1" and "firstLocation F2 = Inr l2"
    and "CHR '':'' \<notin> set (commitSha F1)" and "CHR '':'' \<notin> set (commitSha F2)"
    and "CHR '':'' \<notin> set (ruleId F1)" and "CHR '':'' \<notin> set (ruleId F2)"
    and "commitSha F1 \<noteq> commitSha F2 \<or> uri l1 \<noteq> uri l2
         \<or> ruleId F1 \<noteq> ruleId F2 \<or> startLine l1 \<noteq> startLine l2"
  shows "s1 \<noteq> s2"
proof
  assume "s1 = s2"
  with assms(1-4) have e:
    "commitSha F1 @ CHR '':'' # (uri l1 @ '':'' @ ruleId F1 @ '':'' @ toString (startLine l1))
     = commitSha F2 @ CHR '':'' # (uri l2 @ '':'' @ ruleId F2 @ '':'' @ toString (startLine l2))"
    by (simp add: buildSecretFingerprint_def)
  from split_at_first [OF assms(5) assms(6) e]
  have sha: "commitSha F1 = commitSha F2"
    and r: "(uri l1 @ '':'' @ ruleId F1) @ CHR '':'' # toString (startLine l1)
            = (uri l2 @ '':'' @ ruleId F2) @ CHR '':'' # toString (startLine l2)"
    by simp_all
  from split_at_last [OF colon_not_in_toString colon_not_in_toString r]
  have q: "uri l1 @ CHR '':'' # ruleId F1 = uri l2 @ CHR '':'' # ruleId F2"
    and ln: "toString (startLine l1) = toString (startLine l2)"
    by simp_all
  from split_at_last [OF assms(7) assms(8) q]
  have "uri l1 = uri l2" and "ruleId F1 = ruleId F2"
    by simp_all
  moreover from ln have "startLine l1 = startLine l2"
    by (rule toString_inj)
  ultimately show False
    using sha assms(9) by simp
qed

theorem fingerprint_injective_without_colons_witness:
  "buildSecretFingerprint sampleFinding = Inr ''bbb2222:config.yml:aws-key:12''
   \<and> buildSecretFingerprint (sampleFinding\<lparr> locations := [\<lparr> uri = ''a:b.yml'', startLine = 12 \<rparr>] \<rparr>)
       = Inr ''bbb2222:a:b.yml:aws-key:12''
   \<and> ''bbb2222:config.yml:aws-key:12'' \<noteq> ''bbb2222:a:b.yml:aws-key:12''"
proof -
  have a: "buildSecretFingerprint sampleFinding = Inr ''bbb2222:config.yml:aws-key:12''"
    by (simp add: buildSecretFingerprint_def firstLocation_def sampleFinding_def toString_12)
  have b: "buildSecretFingerprint (sampleFinding\<lparr> locations := [\<lparr> uri = ''a:b.yml'', startLine = 12 \<rparr>] \<rparr>)
       = Inr ''bbb2222:a:b.yml:aws-key:12''"
    by (simp add: buildSecretFingerprint_def firstLocation_def sampleFinding_def toString_12)
  have "''bbb2222:config.yml:aws-key:12'' \<noteq> ''bbb2222:a:b.yml:aws-key:12''"
    by (rule fingerprint_injective_without_colons [OF a b,
          of "\<lparr> uri = ''config.yml'', startLine = 12 \<rparr>"
             "\<lparr> uri = ''a:b.yml'', startLine = 12 \<rparr>"])
       (simp_all add: firstLocation_def sampleFinding_def)
  with a b show ?thesis by simp
qed

section \<open>Posting review comments twice\<close>

lemma requested_append: "requested (a @ b) = requested a @ requested b"
  by (induction a rule: requested.induct) simp_all

lemma postReviewComment_trace:
  "snd (postReviewComment octokit c) = Inr () \<and> requested (fst (postReviewComment octokit c)) = [c]"
  by (simp add: postReviewComment_def split: option.splits)

lemma commentAlreadyExists_iff:
  "commentAlreadyExists ex c \<longleftrightarrow>
     (\<exists>x \<in> set ex. ec_body x = pc_body c \<and> ec_path x = pc_path c
        \<and> ec_original_line x = Some (pc_line c))"
  by (simp add: commentAlreadyExists_def isCommentDuplicate_def list_ex_iff)

lemma postEach_step_raises:
  "buildReviewComment e s ow rp n = Inl m \<Longrightarrow>
     postEach e octokit ex ow rp n (s # rest) = ([], Inl (Thrown m))"
  by (simp add: liftE_def throw_def)

lemma postEach_step:
  assumes "buildReviewComment e s ow rp n = Inr c"
  shows "requested (fst (postEach e octokit ex ow rp n (s # rest))) =
           (if commentAlreadyExists ex c then [] else [c])
           @ requested (fst (postEach e octokit ex ow rp n rest))"
proof (cases "commentAlreadyExists ex c")
  case True
  with assms show ?thesis by (simp add: liftE_def)
next
  case False
  obtain t where t: "postReviewComment octokit c = (t, Inr ())" and r: "requested t = [c]"
    using postReviewComment_trace [of octokit c] by (cases "postReviewComment octokit c") auto
  from False assms show ?thesis
    by (simp add: liftE_def t requested_append r)
qed

lemma buildReviewComment_env:
  assumes "e2 ''GITLEAKS_NOTIFY_USER_LIST'' = e1 ''GITLEAKS_NOTIFY_USER_LIST''"
  shows "buildReviewComment e2 s ow rp n = buildReviewComment e1 s ow rp n"
  by (simp add: buildReviewComment_def assms split: sum.splits)

lemma postEach_env:
  assumes "e2 ''GITLEAKS_NOTIFY_USER_LIST'' = e1 ''GITLEAKS_NOTIFY_USER_LIST''"
  shows "postEach e2 octokit ex ow rp n secrets = postEach e1 octokit ex ow rp n secrets"
  by (induction secrets) (simp_all add: buildReviewComment_env [of e2 e1, OF assms])

lemma postEach_second_run:
  assumes "\<forall>c \<in> set (requested (fst (postEach e o1 ex1 ow rp n secrets))). commentAlreadyExists ex2 c"
    and "\<forall>c. commentAlreadyExists ex1 c \<longrightarrow> commentAlreadyExists ex2 c"
  shows "requested (fst (postEach e o2 ex2 ow rp n secrets)) = []"
  using assms
proof (induction secrets)
  case Nil
  then show ?case by simp
next
  case (Cons s rest)
  show ?case
  proof (cases "buildReviewComment e s ow rp n")
    case (Inl m)
    then show ?thesis
      by (simp only: postEach_step_raises [OF Inl] fst_conv requested.simps)
  next
    case (Inr c)
    have first: "requested (fst (postEach e o1 ex1 ow rp n (s # rest))) =
           (if commentAlreadyExists ex1 c then [] else [c])
           @ requested (fst (postEach e o1 ex1 ow rp n rest))"
      using Inr by (rule postEach_step)
    have "commentAlreadyExists ex2 c"
    proof (cases "commentAlreadyExists ex1 c")
      case True
      with Cons.prems(2) show ?thesis by blast
    next
      case False
      with first have "c \<in> set (requested (fst (postEach e o1 ex1 ow rp n (s # rest))))"
        by simp
      with Cons.prems(1) show ?thesis by blast
    qed
    moreover have "requested (fst (postEach e o2 ex2 ow rp n rest)) = []"
    proof (rule Cons.IH)
      show "\<forall>c \<in> set (requested (fst (postEach e o1 ex1 ow rp n rest))). commentAlreadyExists ex2 c"
        using Cons.prems(1) first by simp
      show "\<forall>c. commentAlreadyExists ex1 c \<longrightarrow> commentAlreadyExists ex2 c"
        by (rule Cons.prems(2))
    qed
    ultimately show ?thesis
      using postEach_step [OF Inr, of o2 ex2 rest] by simp
  qed
qed

lemma postPullRequestComments_requested:
  assumes "pullComments octokit ow rp n = Inr ex"
  shows "requested (fst (postPullRequestComments h octokit ow rp n code)) =
           (if code = 2 then
              (case snd (parseSarifFile h) of
                 Inr (Some found) \<Rightarrow> requested (fst (postEach (env_of h) octokit ex ow rp n found))
               | _ \<Rightarrow> [])
            else [])"
  using assms
  by (auto simp add: postPullRequestComments_def parseSarifFile_def fetchExistingComments_def
      EXIT_CODES_LEAKS_DETECTED_def split: sarifFile.splits option.splits list.splits)

lemma parseSarifFile_same:
  "sarifOnDisk h2 = sarifOnDisk h1 \<Longrightarrow> parseSarifFile h2 = parseSarifFile h1"
  by (simp add: parseSarifFile_def)

text \<open>
  Claim C2. Let the reporter run once on a pull request, and then a second time with
  the same findings, the same mention list, and a list of existing comments that holds
  the first run's existing comments and, for every comment the first run submitted, a
  comment with that body, that path and, as its original line, that line. Then the second
  run submits no comment. In the loop over the findings, the comment built for a finding
  is left out exactly when some existing comment has its body, its path and its line.
\<close>

theorem posting_idempotent:
  assumes "sarifOnDisk h2 = sarifOnDisk h1"
    and "env_of h2 ''GITLEAKS_NOTIFY_USER_LIST'' = env_of h1 ''GITLEAKS_NOTIFY_USER_LIST''"
    and "pullComments o1 ow rp n = Inr ex1"
    and "pullComments o2 ow rp n = Inr ex2"
    and "set ex1 \<subseteq> set ex2"
    and "\<forall>c \<in> set (requested (fst (postPullRequestComments h1 o1 ow rp n code))).
           \<exists>x \<in> set ex2. ec_body x = pc_body c \<and> ec_path x = pc_path c
             \<and> ec_original_line x = Some (pc_line c)"
  shows "requested (fst (postPullRequestComments h2 o2 ow rp n code)) = []
         \<and> (buildReviewComment e s ow rp n = Inr c \<longrightarrow>
              requested (fst (postEach e o2 ex ow rp n (s # rest))) =
                (if (\<exists>x \<in> set ex. ec_body x = pc_body c \<and> ec_path x = pc_path c
                       \<and> ec_original_line x = Some (pc_line c))
                 then [] else [c])
                @ requested (fst (postEach e o2 ex ow rp n rest)))"
proof
  show "requested (fst (postPullRequestComments h2 o2 ow rp n code)) = []"
  proof (cases "code = 2")
    case False
    then show ?thesis
      by (simp add: postPullRequestComments_requested [OF assms(4)])
  next
    case True
    show ?thesis
    proof (cases "snd (parseSarifFile h1)")
      case (Inl a)
      with True show ?thesis
        by (simp add: postPullRequestComments_requested [OF assms(4)]
            parseSarifFile_same [OF assms(1)])
    next
      case (Inr secrets)
      show ?thesis
      proof (cases secrets)
        case None
        with True Inr show ?thesis
          by (simp add: postPullRequestComments_requested [OF assms(4)]
              parseSarifFile_same [OF assms(1)])
      next
        case (Some found)
        have first: "requested (fst (postPullRequestComments h1 o1 ow rp n code)) =
            requested (fst (postEach (env_of h1) o1 ex1 ow rp n found))"
          using True Inr Some by (simp add: postPullRequestComments_requested [OF assms(3)])
        have "requested (fst (postEach (env_of h1) o2 ex2 ow rp n found)) = []"
        proof (rule postEach_second_run)
          show "\<forall>c \<in> set (requested (fst (postEach (env_of h1) o1 ex1 ow rp n found))).
                  commentAlreadyExists ex2 c"
            using assms(6) first by (simp add: commentAlreadyExists_iff)
          show "\<forall>c. commentAlreadyExists ex1 c \<longrightarrow> commentAlreadyExists ex2 c"
            using assms(5) by (auto simp add: commentAlreadyExists_iff)
        qed
        then have "requested (fst (postEach (env_of h2) o2 ex2 ow rp n found)) = []"
          by (simp add: postEach_env [of "env_of h2" "env_of h1", OF assms(2)])
        with True Inr Some show ?thesis
          by (simp add: postPullRequestComments_requested [OF assms(4)]
              parseSarifFile_same [OF assms(1)])
      qed
    qed
  qed
next
  show "buildReviewComment e s ow rp n = Inr c \<longrightarrow>
              requested (fst (postEach e o2 ex ow rp n (s # rest))) =
                (if (\<exists>x \<in> set ex. ec_body x = pc_body c \<and> ec_path x = pc_path c
                       \<and> ec_original_line x = Some (pc_line c))
                 then [] else [c])
                @ requested (fst (postEach e o2 ex ow rp n rest))"
    using postEach_step [of e s ow rp n c o2 ex rest]
    by (simp only: commentAlreadyExists_iff) blast
qed

lemma sample_comment:
  "buildReviewComment Map.empty sampleFinding (Some ''acme'') (Some ''shop'') 7 =
     Inr \<lparr> pc_owner = Some ''acme'', pc_repo = Some ''shop'', pc_pull_number = 7,
           pc_body = buildCommentBody sampleFinding ''bbb2222:config.yml:aws-key:12'' None,
           pc_commit_id = ''bbb2222'', pc_path = ''config.yml'', pc_side = ''RIGHT'',
           pc_line = 12 \<rparr>"
  by (simp add: buildReviewComment_def buildSecretFingerprint_def firstLocation_def
      sampleFinding_def toString_12)

theorem posting_idempotent_witness:
  "requested (fst (postPullRequestComments
       (sampleHost Map.empty (Document (Some [\<lparr> results = Some [sampleFinding] \<rparr>])))
       (sampleOctokit [] []) (Some ''acme'') (Some ''shop'') 7 2))
     = [\<lparr> pc_owner = Some ''acme'', pc_repo = Some ''shop'', pc_pull_number = 7,
           pc_body = buildCommentBody sampleFinding ''bbb2222:config.yml:aws-key:12'' None,
           pc_commit_id = ''bbb2222'', pc_path = ''config.yml'', pc_side = ''RIGHT'',
           pc_line = 12 \<rparr>]
   \<and> requested (fst (postPullRequestComments
       (sampleHost Map.empty (Document (Some [\<lparr> results = Some [sampleFinding] \<rparr>])))
       (sampleOctokit []
          [\<lparr> ec_body = buildCommentBody sampleFinding ''bbb2222:config.yml:aws-key:12'' None,
             ec_path = ''config.yml'', ec_original_line = Some 12 \<rparr>])
       (Some ''acme'') (Some ''shop'') 7 2))
     = []"
proof -
  have first: "requested (fst (postPullRequestComments
       (sampleHost Map.empty (Document (Some [\<lparr> results = Some [sampleFinding] \<rparr>])))
       (sampleOctokit [] []) (Some ''acme'') (Some ''shop'') 7 2))
     = [\<lparr> pc_owner = Some ''acme'', pc_repo = Some ''shop'', pc_pull_number = 7,
           pc_body = buildCommentBody sampleFinding ''bbb2222:config.yml:aws-key:12'' None,
           pc_commit_id = ''bbb2222'', pc_path = ''config.yml'', pc_side = ''RIGHT'',
           pc_line = 12 \<rparr>]"
    by (simp add: postPullRequestComments_requested [of _ _ _ _ "[]"] parseSarifFile_def
        sampleHost_def sampleOctokit_def sample_comment liftE_def commentAlreadyExists_def
        postReviewComment_def)
  have "requested (fst (postPullRequestComments
       (sampleHost Map.empty (Document (Some [\<lparr> results = Some [sampleFinding] \<rparr>])))
       (sampleOctokit []
          [\<lparr> ec_body = buildCommentBody sampleFinding ''bbb2222:config.yml:aws-key:12'' None,
             ec_path = ''config.yml'', ec_original_line = Some 12 \<rparr>])
       (Some ''acme'') (Some ''shop'') 7 2))
     = []"
    using posting_idempotent
      [of "sampleHost Map.empty (Document (Some [\<lparr> results = Some [sampleFinding] \<rparr>]))"
          "sampleHost Map.empty (Document (Some [\<lparr> results = Some [sampleFinding] \<rparr>]))"
          "sampleOctokit [] []" "Some ''acme''" "Some ''shop''" 7 "[]"
          "sampleOctokit []
            [\<lparr> ec_body = buildCommentBody sampleFinding ''bbb2222:config.yml:aws-key:12'' None,
               ec_path = ''config.yml'', ec_original_line = Some 12 \<rparr>]"
          "[\<lparr> ec_body = buildCommentBody sampleFinding ''bbb2222:config.yml:aws-key:12'' None,
               ec_path = ''config.yml'', ec_original_line = Some 12 \<rparr>]"
          2]
    by (simp add: first) (simp add: sampleOctokit_def)
  with first show ?thesis by simp
qed

end
